theory Spec2Isabelle
  imports Complex_Main "HOL-Library.Word"
begin

section \<open>JavaScript values\<close>

text \<open>
  A JavaScript string is a sequence of UTF-16 code units. The literals of the source that
  are plain ASCII are written with \<open>ascii\<close>; the Chinese messages are written as their
  code units.
\<close>

type_synonym jsstring = "16 word list"

definition ascii :: "string \<Rightarrow> jsstring" where
  "ascii s = map (\<lambda>c. word_of_nat (of_char c)) s"

text \<open>
  What a \<open>throw\<close> or a rejected promise carries. \<open>Error m\<close> is \<open>new Error(m)\<close>;
  the others are the exceptions of the platform; \<open>Failure n\<close> is any other rejection of
  a platform call (a network error, an HTTP error of the provider).
\<close>

datatype js_error =
    Error jsstring
  | TypeError
  | SyntaxError
  | RangeError
  | NotSupportedError
  | InvalidCharacterError
  | Failure nat

text \<open>
  The values \<open>JSON.parse\<close> can return, and \<open>undefined\<close>. An object is the list of its
  own properties, each key once. A number is carried as the rational it denotes: the code
  only tests whether it is zero.
\<close>

datatype jsval =
    Undefined
  | Null
  | Bool bool
  | Num rat
  | Str jsstring
  | Arr "jsval list"
  | Obj "(jsstring \<times> jsval) list"

text \<open>The truthiness test of \<open>c ? a : b\<close>, \<open>!x\<close> and \<open>x || y\<close>.\<close>

fun truthy :: "jsval \<Rightarrow> bool" where
  "truthy Undefined = False"
| "truthy Null = False"
| "truthy (Bool b) = b"
| "truthy (Num n) = (n \<noteq> 0)"
| "truthy (Str s) = (s \<noteq> [])"
| "truthy (Arr xs) = True"
| "truthy (Obj kvs) = True"

text \<open>
  \<open>x || null\<close> and \<open>!x\<close> on a value of type \<open>string | undefined\<close>: the empty string is
  falsy as \<open>undefined\<close> is.
\<close>

fun nonempty :: "jsstring option \<Rightarrow> jsstring option" where
  "nonempty None = None"
| "nonempty (Some s) = (if s = [] then None else Some s)"

text \<open>
  Property access \<open>v.k\<close> for the names the code reads (\<open>correction\<close>, \<open>corrected\<close>,
  \<open>generalFeedback\<close>, \<open>segments\<close>), none of which is a built-in property of a string, a
  number, a boolean or an array: reading from \<open>null\<close> or \<open>undefined\<close> throws a TypeError,
  a missing property reads as \<open>undefined\<close>.
\<close>

fun get_prop :: "jsval \<Rightarrow> jsstring \<Rightarrow> js_error + jsval" where
  "get_prop Undefined k = Inl TypeError"
| "get_prop Null k = Inl TypeError"
| "get_prop (Obj kvs) k = Inr (case map_of kvs k of None \<Rightarrow> Undefined | Some v \<Rightarrow> v)"
| "get_prop v k = Inr Undefined"

text \<open>The decimal digits of an array index, as a property key.\<close>

fun decimal :: "nat \<Rightarrow> string" where
  "decimal n =
     (if n < 10 then [char_of (48 + n)]
      else decimal (n div 10) @ [char_of (48 + n mod 10)])"

declare decimal.simps [simp del]

text \<open>
  The own enumerable properties that the spread \<open>{...v}\<close> copies: those of an object, the
  indexed elements of an array, the indexed code units of a string, nothing for the other
  values.
\<close>

fun spread :: "jsval \<Rightarrow> (jsstring \<times> jsval) list" where
  "spread (Obj kvs) = kvs"
| "spread (Arr xs) = zip (map (\<lambda>i. ascii (decimal i)) [0..<length xs]) xs"
| "spread (Str s) = zip (map (\<lambda>i. ascii (decimal i)) [0..<length s]) (map (\<lambda>c. Str [c]) s)"
| "spread v = []"

text \<open>
  A property \<open>k: v\<close> written after a spread in an object literal: it replaces the value of
  a key that is there and is added otherwise.
\<close>

fun set_prop :: "(jsstring \<times> jsval) list \<Rightarrow> jsstring \<Rightarrow> jsval \<Rightarrow> (jsstring \<times> jsval) list" where
  "set_prop [] k v = [(k, v)]"
| "set_prop ((k', v') # kvs) k v =
     (if k' = k then (k, v) # kvs else (k', v') # set_prop kvs k v)"

text \<open>\<open>Array.prototype.join\<close> on an array of strings.\<close>

fun join :: "jsstring \<Rightarrow> jsstring list \<Rightarrow> jsstring" where
  "join sep [] = []"
| "join sep [x] = x"
| "join sep (x # y # ys) = x @ sep @ join sep (y # ys)"


section \<open>The types of the application (types.ts)\<close>

datatype ModelLevel = Mini | Quick | Deep

datatype WritingMode =
  Fix | Ielts_5_5 | Ielts_6_0 | Ielts_6_5 | Ielts_7_0 | Ielts_7_5 | Ielts_8_0

datatype SegmentType = Unchanged | Change

datatype Category = Grammar | Vocabulary | Style | Collocation | Punctuation

record WritingSegment =
  seg_type :: SegmentType
  seg_text :: jsstring
  seg_original :: "jsstring option"
  seg_reason :: "jsstring option"
  seg_category :: "Category option"

record WritingResult =
  wr_mode :: WritingMode
  generalFeedback :: jsstring
  segments :: "WritingSegment list"


section \<open>The service layer (services/geminiService.ts)\<close>

subsection \<open>Requests, responses and the platform\<close>

record ModelConfig =
  model :: jsstring
  thinkingBudget :: int

text \<open>\<open>getModelConfig\<close>: the \<open>default\<close> branch of the switch is that of \<open>Mini\<close>.\<close>

fun getModelConfig :: "ModelLevel \<Rightarrow> ModelConfig" where
  "getModelConfig Mini = \<lparr>model = ascii ''gemini-2.5-flash'', thinkingBudget = 0\<rparr>"
| "getModelConfig Quick = \<lparr>model = ascii ''gemini-2.5-flash'', thinkingBudget = 500\<rparr>"
| "getModelConfig Deep = \<lparr>model = ascii ''gemini-2.5-flash'', thinkingBudget = 2000\<rparr>"

text \<open>
  The prompts are template literals with the user's text put in; a prompt is carried as the
  template it comes from and the text in it. The writing prompt also holds the
  instructions of the mode.
\<close>

datatype contents =
    AnalysisPrompt jsstring
  | DictionaryPrompt jsstring
  | WritingPrompt WritingMode jsstring
  | SpeechParts jsstring

datatype schema = AnalysisSchema | DictionarySchema | WritingSchema

datatype contextType = Sentence | Word | Writing

text \<open>
  The context line of the chat's system instruction: the content, or the placeholder of
  the context type where the content is \<open>null\<close> or empty.
\<close>

datatype contextInstruction = ContextInstruction contextType jsstring

record generate_request =
  rq_model :: jsstring
  rq_contents :: contents
  thinkingConfig :: "int option"
  responseMimeType :: "jsstring option"
  responseSchema :: "schema option"
  responseModalities :: "jsstring list"
  voiceName :: "jsstring option"

record chat_request =
  chat_model :: jsstring
  systemInstruction :: contextInstruction
  message :: jsstring

datatype request = GenerateContent generate_request | SendMessage chat_request

text \<open>
  Of a response the code reads \<open>response.text\<close> and the first part of the first
  candidate, \<open>response.candidates?.[0]?.content?.parts?.[0]\<close>, with its \<open>text\<close> and its
  \<open>inlineData?.data\<close>.
\<close>

record part =
  part_text :: "jsstring option"
  inlineData_data :: "jsstring option"

record response =
  response_text :: "jsstring option"
  first_part :: "part option"

text \<open>
  An \<open>AudioContext\<close>: its sample rate, and which buffers its \<open>createBuffer\<close> accepts
  (number of channels, length in frames, sample rate).
\<close>

record AudioContext =
  ctx_sampleRate :: nat
  ctx_accepts :: "nat \<Rightarrow> nat \<Rightarrow> nat \<Rightarrow> bool"

record AudioBuffer =
  buf_sampleRate :: nat
  channelData :: "real list list"

text \<open>
  What the module does not define itself: the environment variable, the answer of the
  provider to a request, and the platform functions \<open>atob\<close>, \<open>JSON.parse\<close> and
  \<open>createBuffer\<close>.
\<close>

record platform =
  API_KEY :: "jsstring option"
  provider :: "request \<Rightarrow> js_error + response"
  atob :: "jsstring \<Rightarrow> js_error + jsstring"
  JSON_parse :: "jsstring \<Rightarrow> js_error + jsval"
  accepts_buffer :: "nat \<Rightarrow> nat \<Rightarrow> nat \<Rightarrow> bool"

datatype console_entry =
    ConsoleError jsstring js_error
  | ConsoleWarn jsstring jsstring

text \<open>
  What the calls change: the requests sent to the provider, in order, the console, and the
  module's \<open>sharedDecodeContext\<close>.
\<close>

record world =
  requests :: "request list"
  console :: "console_entry list"
  sharedDecodeContext :: "AudioContext option"

text \<open>\<open>const ai = apiKey ? new GoogleGenAI({ apiKey }) : null\<close>: the client is its key.\<close>

definition ai :: "platform \<Rightarrow> jsstring option" where
  "ai env = nonempty (API_KEY env)"

definition send :: "platform \<Rightarrow> request \<Rightarrow> world \<Rightarrow> (js_error + response) \<times> world" where
  "send env req w = (provider env req, w\<lparr>requests := requests w @ [req]\<rparr>)"

subsection \<open>The audio helpers\<close>

definition getDecodeContext :: "platform \<Rightarrow> world \<Rightarrow> AudioContext \<times> world" where
  "getDecodeContext env w =
     (case sharedDecodeContext w of
        Some ctx \<Rightarrow> (ctx, w)
      | None \<Rightarrow>
          (let ctx = \<lparr>ctx_sampleRate = 24000, ctx_accepts = accepts_buffer env\<rparr>
           in (ctx, w\<lparr>sharedDecodeContext := Some ctx\<rparr>)))"

text \<open>
  \<open>decode\<close>: one byte for each code unit of \<open>atob(base64)\<close>; storing into a
  \<open>Uint8Array\<close> keeps the low eight bits.
\<close>

definition decode :: "platform \<Rightarrow> jsstring \<Rightarrow> js_error + 8 word list" where
  "decode env base64 =
     (case atob env base64 of
        Inl e \<Rightarrow> Inl e
      | Inr binaryString \<Rightarrow> Inr (map (\<lambda>c. ucast c) binaryString))"

text \<open>
  \<open>new Int16Array(data.buffer)\<close>, for an array that covers its whole buffer as the one
  that \<open>decode\<close> returns does: a RangeError when the byte length is odd, else one element
  for each two bytes, low byte first.
\<close>

fun int16_pairs :: "8 word list \<Rightarrow> 16 word list" where
  "int16_pairs (lo # hi # bs) = (ucast lo + push_bit 8 (ucast hi)) # int16_pairs bs"
| "int16_pairs bs = []"

definition Int16Array :: "8 word list \<Rightarrow> js_error + 16 word list" where
  "Int16Array bytes = (if odd (length bytes) then Inl RangeError else Inr (int16_pairs bytes))"

definition createBuffer :: "AudioContext \<Rightarrow> nat \<Rightarrow> nat \<Rightarrow> nat \<Rightarrow> js_error + AudioBuffer" where
  "createBuffer ctx numChannels frameCount sampleRate =
     (if ctx_accepts ctx numChannels frameCount sampleRate
      then Inr \<lparr>buf_sampleRate = sampleRate,
                channelData = replicate numChannels (replicate frameCount 0)\<rparr>
      else Inl NotSupportedError)"

text \<open>
  The inner loop of \<open>decodeAudioData\<close>,
  \<open>for (i = 0; i < frameCount; i++) channelData[i] = dataInt16[i * numChannels + channel] / 32768.0\<close>.
  A sample is a 16-bit integer divided by a power of two, which a float holds exactly.
\<close>

definition fill_channel :: "16 word list \<Rightarrow> nat \<Rightarrow> nat \<Rightarrow> nat \<Rightarrow> real list \<Rightarrow> real list" where
  "fill_channel dataInt16 numChannels channel frameCount cd =
     fold (\<lambda>i cd. cd[i := real_of_int (sint (dataInt16 ! (i * numChannels + channel))) / 32768])
       [0..<frameCount] cd"

text \<open>
  \<open>decodeAudioData\<close>. \<open>createBuffer\<close> takes the frame count
  \<open>dataInt16.length / numChannels\<close> as a whole number (the fraction is cut, a division
  by zero gives 0), and the writes of the loop beyond the length of the channel are
  dropped.
\<close>

definition decodeAudioData ::
  "8 word list \<Rightarrow> AudioContext \<Rightarrow> nat \<Rightarrow> nat \<Rightarrow> js_error + AudioBuffer" where
  "decodeAudioData data ctx sampleRate numChannels =
     (case Int16Array data of
        Inl e \<Rightarrow> Inl e
      | Inr dataInt16 \<Rightarrow>
          (let frameCount = length dataInt16 div numChannels in
           case createBuffer ctx numChannels frameCount sampleRate of
             Inl e \<Rightarrow> Inl e
           | Inr buffer \<Rightarrow>
               Inr (buffer\<lparr>channelData :=
                      fold (\<lambda>channel chans.
                              chans[channel := fill_channel dataInt16 numChannels channel
                                                 frameCount (chans ! channel)])
                        [0..<numChannels] (channelData buffer)\<rparr>)))"

subsection \<open>The fixed messages\<close>

definition api_key_missing :: jsstring where
  "api_key_missing = ascii ''API Key missing''"

definition api_key_missing_long :: jsstring where
  "api_key_missing_long =
     ascii ''API Key is missing. Please check your environment configuration.''"

text \<open>The message of \<open>analyzeSentence\<close> (cannot analyse this sentence; check the network or the API key settings).\<close>

definition analyze_failed :: jsstring where
  "analyze_failed =
     [0x65E0, 0x6CD5, 0x5206, 0x6790, 0x8BE5, 0x53E5, 0x5B50, 0x3002, 0x8BF7, 0x68C0, 0x67E5,
      0x7F51, 0x7EDC, 0x6216] @ ascii '' API Key '' @ [0x8BBE, 0x7F6E, 0x3002]"

text \<open>The message of \<open>lookupWord\<close> (cannot look this word up, please retry).\<close>

definition lookup_failed :: jsstring where
  "lookup_failed =
     [0x65E0, 0x6CD5, 0x67E5, 0x8BE2, 0x8BE5, 0x5355, 0x8BCD, 0xFF0C, 0x8BF7, 0x91CD, 0x8BD5,
      0x3002]"

text \<open>The message of \<open>evaluateWriting\<close> (the writing analysis failed; check the network or try later).\<close>

definition writing_failed :: jsstring where
  "writing_failed =
     [0x5199, 0x4F5C, 0x5206, 0x6790, 0x5931, 0x8D25, 0xFF0C, 0x8BF7, 0x68C0, 0x67E5, 0x7F51,
      0x7EDC, 0x6216, 0x7A0D, 0x540E, 0x518D, 0x8BD5, 0x3002]"

text \<open>The placeholders of the chat context (the user has not yet entered a sentence, a word, an essay).\<close>

fun placeholder :: "contextType \<Rightarrow> jsstring" where
  "placeholder Sentence = [0x7528, 0x6237, 0x6682, 0x672A, 0x8F93, 0x5165, 0x53E5, 0x5B50]"
| "placeholder Word = [0x7528, 0x6237, 0x6682, 0x672A, 0x67E5, 0x8BE2, 0x5355, 0x8BCD]"
| "placeholder Writing = [0x7528, 0x6237, 0x6682, 0x672A, 0x8F93, 0x5165, 0x6587, 0x7AE0]"

fun mode_name :: "WritingMode \<Rightarrow> jsstring" where
  "mode_name Fix = ascii ''fix''"
| "mode_name Ielts_5_5 = ascii ''ielts-5.5''"
| "mode_name Ielts_6_0 = ascii ''ielts-6.0''"
| "mode_name Ielts_6_5 = ascii ''ielts-6.5''"
| "mode_name Ielts_7_0 = ascii ''ielts-7.0''"
| "mode_name Ielts_7_5 = ascii ''ielts-7.5''"
| "mode_name Ielts_8_0 = ascii ''ielts-8.0''"

subsection \<open>generateSpeech\<close>

definition speech_request :: "jsstring \<Rightarrow> request" where
  "speech_request text' =
     GenerateContent
       \<lparr>rq_model = ascii ''gemini-2.5-flash-preview-tts'',
        rq_contents = SpeechParts text',
        thinkingConfig = None,
        responseMimeType = None,
        responseSchema = None,
        responseModalities = [ascii ''AUDIO''],
        voiceName = Some (ascii ''Kore'')\<rparr>"

definition generateSpeech ::
  "platform \<Rightarrow> jsstring \<Rightarrow> world \<Rightarrow> (js_error + AudioBuffer) \<times> world" where
  "generateSpeech env text' w =
     (case ai env of
        None \<Rightarrow> (Inl (Error api_key_missing), w)
      | Some client \<Rightarrow>
          (case send env (speech_request text') w of
             (Inl e, w1) \<Rightarrow> (Inl e, w1)
           | (Inr response, w1) \<Rightarrow>
               (let part = first_part response;
                    base64Audio = (case part of None \<Rightarrow> None | Some p \<Rightarrow> inlineData_data p)
                in case nonempty base64Audio of
                     None \<Rightarrow>
                       (Inl (Error (ascii ''No audio data received from Gemini'')),
                        (case nonempty (case part of None \<Rightarrow> None | Some p \<Rightarrow> part_text p) of
                           None \<Rightarrow> w1
                         | Some t \<Rightarrow>
                             w1\<lparr>console := console w1 @
                                   [ConsoleWarn
                                      (ascii ''Gemini TTS returned text instead of audio. Text:'') t]\<rparr>))
                   | Some b64 \<Rightarrow>
                       (case getDecodeContext env w1 of
                          (decodeCtx, w2) \<Rightarrow>
                            (case decode env b64 of
                               Inl e \<Rightarrow> (Inl e, w2)
                             | Inr bytes \<Rightarrow> (decodeAudioData bytes decodeCtx 24000 1, w2))))))"

subsection \<open>analyzeSentence\<close>

definition analysis_request :: "jsstring \<Rightarrow> ModelLevel \<Rightarrow> request" where
  "analysis_request sentence modelLevel =
     (let cfg = getModelConfig modelLevel in
      GenerateContent
        \<lparr>rq_model = model cfg,
         rq_contents = AnalysisPrompt sentence,
         thinkingConfig = (if thinkingBudget cfg > 0 then Some (thinkingBudget cfg) else None),
         responseMimeType = Some (ascii ''application/json''),
         responseSchema = Some AnalysisSchema,
         responseModalities = [],
         voiceName = None\<rparr>)"

text \<open>
  The body of the \<open>try\<close> after the response has come: the result is
  \<open>{...parsedData, englishSentence: parsedData.correction ? parsedData.correction.corrected : sentence}\<close>.
\<close>

definition analysis_of :: "platform \<Rightarrow> jsstring \<Rightarrow> response \<Rightarrow> js_error + jsval" where
  "analysis_of env sentence response =
     (case nonempty (response_text response) of
        None \<Rightarrow> Inl (Error (ascii ''Empty response from Gemini''))
      | Some jsonText \<Rightarrow>
          (case JSON_parse env jsonText of
             Inl e \<Rightarrow> Inl e
           | Inr parsedData \<Rightarrow>
               (case get_prop parsedData (ascii ''correction'') of
                  Inl e \<Rightarrow> Inl e
                | Inr correction \<Rightarrow>
                    (case (if truthy correction then get_prop correction (ascii ''corrected'')
                           else Inr (Str sentence)) of
                       Inl e \<Rightarrow> Inl e
                     | Inr englishSentence \<Rightarrow>
                         Inr (Obj (set_prop (spread parsedData) (ascii ''englishSentence'')
                                     englishSentence))))))"

definition analyzeSentence ::
  "platform \<Rightarrow> jsstring \<Rightarrow> ModelLevel \<Rightarrow> world \<Rightarrow> (js_error + jsval) \<times> world" where
  "analyzeSentence env sentence modelLevel w =
     (case ai env of
        None \<Rightarrow> (Inl (Error api_key_missing_long), w)
      | Some client \<Rightarrow>
          (case send env (analysis_request sentence modelLevel) w of
             (r, w1) \<Rightarrow>
               (case (case r of Inl e \<Rightarrow> Inl e | Inr response \<Rightarrow> analysis_of env sentence response) of
                  Inr result \<Rightarrow> (Inr result, w1)
                | Inl error \<Rightarrow>
                    (Inl (Error analyze_failed),
                     w1\<lparr>console := console w1 @
                           [ConsoleError (ascii ''Gemini API Error:'') error]\<rparr>))))"

subsection \<open>lookupWord\<close>

definition dictionary_request :: "jsstring \<Rightarrow> ModelLevel \<Rightarrow> request" where
  "dictionary_request word modelLevel =
     (let cfg = getModelConfig modelLevel in
      GenerateContent
        \<lparr>rq_model = model cfg,
         rq_contents = DictionaryPrompt word,
         thinkingConfig = (if thinkingBudget cfg > 0 then Some (thinkingBudget cfg) else None),
         responseMimeType = Some (ascii ''application/json''),
         responseSchema = Some DictionarySchema,
         responseModalities = [],
         voiceName = None\<rparr>)"

definition dictionary_of :: "platform \<Rightarrow> response \<Rightarrow> js_error + jsval" where
  "dictionary_of env response =
     (case nonempty (response_text response) of
        None \<Rightarrow> Inl (Error (ascii ''Empty response''))
      | Some jsonText \<Rightarrow> JSON_parse env jsonText)"

definition lookupWord ::
  "platform \<Rightarrow> jsstring \<Rightarrow> ModelLevel \<Rightarrow> world \<Rightarrow> (js_error + jsval) \<times> world" where
  "lookupWord env word modelLevel w =
     (case ai env of
        None \<Rightarrow> (Inl (Error api_key_missing), w)
      | Some client \<Rightarrow>
          (case send env (dictionary_request word modelLevel) w of
             (r, w1) \<Rightarrow>
               (case (case r of Inl e \<Rightarrow> Inl e | Inr response \<Rightarrow> dictionary_of env response) of
                  Inr result \<Rightarrow> (Inr result, w1)
                | Inl error \<Rightarrow>
                    (Inl (Error lookup_failed),
                     w1\<lparr>console := console w1 @
                           [ConsoleError (ascii ''Dictionary API Error'') error]\<rparr>))))"

subsection \<open>evaluateWriting\<close>

definition writing_request :: "jsstring \<Rightarrow> WritingMode \<Rightarrow> ModelLevel \<Rightarrow> request" where
  "writing_request text' mode modelLevel =
     (let cfg = getModelConfig modelLevel in
      GenerateContent
        \<lparr>rq_model = model cfg,
         rq_contents = WritingPrompt mode text',
         thinkingConfig = (if thinkingBudget cfg > 0 then Some (thinkingBudget cfg) else None),
         responseMimeType = Some (ascii ''application/json''),
         responseSchema = Some WritingSchema,
         responseModalities = [],
         voiceName = None\<rparr>)"

text \<open>The result is \<open>{mode, generalFeedback: parsed.generalFeedback, segments: parsed.segments}\<close>.\<close>

definition writing_of :: "platform \<Rightarrow> WritingMode \<Rightarrow> response \<Rightarrow> js_error + jsval" where
  "writing_of env mode response =
     (case nonempty (response_text response) of
        None \<Rightarrow> Inl (Error (ascii ''Empty response''))
      | Some jsonText \<Rightarrow>
          (case JSON_parse env jsonText of
             Inl e \<Rightarrow> Inl e
           | Inr parsed \<Rightarrow>
               (case get_prop parsed (ascii ''generalFeedback'') of
                  Inl e \<Rightarrow> Inl e
                | Inr feedback \<Rightarrow>
                    (case get_prop parsed (ascii ''segments'') of
                       Inl e \<Rightarrow> Inl e
                     | Inr segs \<Rightarrow>
                         Inr (Obj [(ascii ''mode'', Str (mode_name mode)),
                                   (ascii ''generalFeedback'', feedback),
                                   (ascii ''segments'', segs)])))))"

definition evaluateWriting ::
  "platform \<Rightarrow> jsstring \<Rightarrow> WritingMode \<Rightarrow> ModelLevel \<Rightarrow> world \<Rightarrow> (js_error + jsval) \<times> world" where
  "evaluateWriting env text' mode modelLevel w =
     (case ai env of
        None \<Rightarrow> (Inl (Error api_key_missing), w)
      | Some client \<Rightarrow>
          (case send env (writing_request text' mode modelLevel) w of
             (r, w1) \<Rightarrow>
               (case (case r of Inl e \<Rightarrow> Inl e | Inr response \<Rightarrow> writing_of env mode response) of
                  Inr result \<Rightarrow> (Inr result, w1)
                | Inl error \<Rightarrow>
                    (Inl (Error writing_failed),
                     w1\<lparr>console := console w1 @
                           [ConsoleError (ascii ''Writing Evaluation API Error'') error]\<rparr>))))"

subsection \<open>getChatResponse\<close>

datatype Role = User | Assistant

text \<open>
  A message of the chat. Its content is a string in \<open>types.ts\<close>; the text of a response,
  which \<open>handleSend\<close> stores as a content, can be \<open>undefined\<close>.
\<close>

record Message =
  role :: Role
  content :: "jsstring option"

text \<open>The \<open>history\<close> is a parameter that the function does not read.\<close>

definition getChatResponse ::
  "platform \<Rightarrow> Message list \<Rightarrow> jsstring option \<Rightarrow> jsstring \<Rightarrow> contextType \<Rightarrow> world
     \<Rightarrow> (js_error + jsstring option) \<times> world" where
  "getChatResponse env history contextContent userMessage ctype w =
     (case ai env of
        None \<Rightarrow> (Inl (Error api_key_missing), w)
      | Some client \<Rightarrow>
          (let contextInstruction =
                 ContextInstruction ctype
                   (case nonempty contextContent of Some c \<Rightarrow> c | None \<Rightarrow> placeholder ctype)
           in case send env (SendMessage \<lparr>chat_model = ascii ''gemini-2.5-flash'',
                                          systemInstruction = contextInstruction,
                                          message = userMessage\<rparr>) w of
                (Inl e, w1) \<Rightarrow> (Inl e, w1)
              | (Inr result, w1) \<Rightarrow> (Inr (response_text result), w1)))"


section \<open>The joined text of a writing result (WritingPage.tsx, App.tsx)\<close>

text \<open>
  \<open>copyFullText\<close> writes \<open>result.segments.map(s => s.text).join('')\<close> to the clipboard,
  and does nothing when there is no result. The clipboard is the state it changes.
\<close>

definition copyFullText :: "WritingResult option \<Rightarrow> jsstring option \<Rightarrow> jsstring option" where
  "copyFullText result clipboard =
     (case result of
        None \<Rightarrow> clipboard
      | Some r \<Rightarrow> Some (join [] (map seg_text (segments r))))"

text \<open>The \<open>fullText\<close> property given to \<open>SyntaxModeTextRenderer\<close>.\<close>

definition fullText :: "WritingResult \<Rightarrow> jsstring" where
  "fullText result = join [] (map seg_text (segments result))"

datatype Tab = Analyzer | Dictionary | WritingTab

text \<open>
  The context of the assistant in \<open>App\<close>, from the active tab and
  \<open>analyzerResult?.englishSentence\<close>, \<open>dictionaryResult?.word\<close> and \<open>writingResult\<close>:
  each branch ends in \<open>|| null\<close>.
\<close>

definition assistantContext ::
  "Tab \<Rightarrow> jsstring option \<Rightarrow> jsstring option \<Rightarrow> WritingResult option
     \<Rightarrow> jsstring option \<times> contextType" where
  "assistantContext activeTab analyzerSentence dictionaryWord writingResult =
     (case activeTab of
        Analyzer \<Rightarrow> (nonempty analyzerSentence, Sentence)
      | Dictionary \<Rightarrow> (nonempty dictionaryWord, Word)
      | WritingTab \<Rightarrow>
          (nonempty (case writingResult of
                       None \<Rightarrow> None
                     | Some r \<Rightarrow> Some (join [] (map seg_text (segments r)))),
           Writing))"


section \<open>The handlers of the pages (App.tsx, DictionaryPage.tsx, WritingPage.tsx, AiAssistant.tsx)\<close>







subsection \<open>App: handleAnalyze\<close>



subsection \<open>DictionaryPage: handleSearch and playAudio\<close>




subsection \<open>WritingPage: handleAnalyze and handleSyntaxAnalyze\<close>





subsection \<open>AiAssistant: handleSend\<close>




section \<open>The audio of ResultDisplay (components/ResultDisplay.tsx)\<close>

text \<open>
  The component is a state and the events that change it. Every call of \<open>generateSpeech\<close>
  is recorded with its text and the state of its promise; promise \<open>n\<close> is that of call
  \<open>n\<close>, and the buffer it resolves to is named \<open>n\<close> too. The asynchronous functions are
  cut at their \<open>await\<close>: a suspended \<open>prefetchAudio\<close> or \<open>playAudio\<close> is a task that
  holds the sentence of the render it was created in and the promise it waits for, and
  runs on when that promise settles. The calls of the Web Audio interface are taken to
  succeed, with a running context.
\<close>

datatype promise_state = Pending | Fulfilled | Rejected

record speech_call =
  call_text :: jsstring
  call_state :: promise_state

text \<open>
  What a suspended \<open>playAudio\<close> waits for: the promise it found in \<open>audioPromiseRef\<close>, or
  that of a \<open>generateSpeech\<close> call of its own.
\<close>

datatype awaited = Stored | Own

record play_task =
  task_sentence :: jsstring
  task_promise :: nat
  task_awaits :: awaited

record prefetch_task =
  pf_sentence :: jsstring
  pf_promise :: nat

record display =
  englishSentence :: jsstring
  audioCacheRef :: "nat option"
  audioPromiseRef :: "nat option"
  currentSentenceRef :: jsstring
  isAudioPlaying :: bool
  isAudioLoading :: bool
  calls :: "speech_call list"
  prefetches :: "prefetch_task list"
  plays :: "play_task list"
  alerts :: nat
  console_errors :: nat

definition call_generateSpeech :: "jsstring \<Rightarrow> display \<Rightarrow> nat \<times> display" where
  "call_generateSpeech text' d =
     (length (calls d), d\<lparr>calls := calls d @ [\<lparr>call_text = text', call_state = Pending\<rparr>]\<rparr>)"

definition state_of :: "display \<Rightarrow> nat \<Rightarrow> promise_state" where
  "state_of d p = (if p < length (calls d) then call_state (calls d ! p) else Pending)"

text \<open>
  The body of the effect on \<open>[result.englishSentence]\<close>, up to the \<open>await\<close> of
  \<open>prefetchAudio\<close>.
\<close>

definition effect :: "display \<Rightarrow> display" where
  "effect d =
     (let d1 = d\<lparr>audioCacheRef := None, audioPromiseRef := None,
                  currentSentenceRef := englishSentence d\<rparr>
      in case call_generateSpeech (englishSentence d1) d1 of
           (promise, d2) \<Rightarrow>
             d2\<lparr>audioPromiseRef := Some promise,
                prefetches := prefetches d2 @
                  [\<lparr>pf_sentence = englishSentence d1, pf_promise = promise\<rparr>]\<rparr>)"

definition mount :: "jsstring \<Rightarrow> display" where
  "mount s =
     effect \<lparr>englishSentence = s, audioCacheRef = None, audioPromiseRef = None,
             currentSentenceRef = s, isAudioPlaying = False, isAudioLoading = False,
             calls = [], prefetches = [], plays = [], alerts = 0, console_errors = 0\<rparr>"

text \<open>A render with a new \<open>result\<close>: the effect runs when the sentence has changed.\<close>

definition render :: "jsstring \<Rightarrow> display \<Rightarrow> display" where
  "render s d = (if s = englishSentence d then d else effect (d\<lparr>englishSentence := s\<rparr>))"

text \<open>\<open>prefetchAudio\<close> after its \<open>await\<close>: the guarded write of the cache, or the \<open>catch\<close>.\<close>

definition resume_prefetch :: "bool \<Rightarrow> prefetch_task \<Rightarrow> display \<Rightarrow> display" where
  "resume_prefetch ok t d =
     (if ok then
        (if currentSentenceRef d = pf_sentence t then d\<lparr>audioCacheRef := Some (pf_promise t)\<rparr>
         else d)
      else d\<lparr>console_errors := console_errors d + 1\<rparr>)"

text \<open>
  \<open>playAudio\<close> once it has its buffer: \<open>audioCacheRef.current = audioBuffer\<close>,
  \<open>setIsAudioLoading(false)\<close>, and the playback.
\<close>

definition got_buffer :: "nat \<Rightarrow> display \<Rightarrow> display" where
  "got_buffer audioBuffer d =
     d\<lparr>audioCacheRef := Some audioBuffer, isAudioLoading := False, isAudioPlaying := True\<rparr>"

text \<open>The outer \<open>catch\<close> of \<open>playAudio\<close>.\<close>

definition play_failed :: "display \<Rightarrow> display" where
  "play_failed d =
     d\<lparr>console_errors := console_errors d + 1, isAudioLoading := False,
       isAudioPlaying := False, audioPromiseRef := None, alerts := alerts d + 1\<rparr>"

text \<open>\<open>audioBuffer = await generateSpeech(result.englishSentence)\<close>, up to the \<open>await\<close>.\<close>

definition own_call :: "jsstring \<Rightarrow> display \<Rightarrow> display" where
  "own_call sentence d =
     (case call_generateSpeech sentence d of
        (promise, d1) \<Rightarrow>
          d1\<lparr>plays := plays d1 @
               [\<lparr>task_sentence = sentence, task_promise = promise, task_awaits = Own\<rparr>]\<rparr>)"

text \<open>
  \<open>playAudio\<close> after an \<open>await\<close>. A rejected stored promise is caught by the inner
  \<open>catch\<close>, which calls \<open>generateSpeech\<close>; a rejected call of its own goes to the outer
  \<open>catch\<close>.
\<close>

definition resume_play :: "bool \<Rightarrow> play_task \<Rightarrow> display \<Rightarrow> display" where
  "resume_play ok t d =
     (if ok then got_buffer (task_promise t) d
      else (case task_awaits t of
              Stored \<Rightarrow> own_call (task_sentence t) d
            | Own \<Rightarrow> play_failed d))"

text \<open>\<open>playAudio\<close> from the click to its first \<open>await\<close>, or to its end.\<close>

definition playAudio :: "display \<Rightarrow> display" where
  "playAudio d =
     (if isAudioPlaying d then d
      else (case audioCacheRef d of
              Some audioBuffer \<Rightarrow> d\<lparr>isAudioPlaying := True\<rparr>
            | None \<Rightarrow>
                (let d1 = d\<lparr>isAudioLoading := True\<rparr> in
                 case audioPromiseRef d1 of
                   Some promise \<Rightarrow>
                     (let t = \<lparr>task_sentence = englishSentence d, task_promise = promise,
                               task_awaits = Stored\<rparr>
                      in case state_of d1 promise of
                           Pending \<Rightarrow> d1\<lparr>plays := plays d1 @ [t]\<rparr>
                         | Fulfilled \<Rightarrow> resume_play True t d1
                         | Rejected \<Rightarrow> resume_play False t d1)
                 | None \<Rightarrow> own_call (englishSentence d) d1)))"

text \<open>
  A pending promise settles: the \<open>prefetchAudio\<close> that waits for it runs on first, then
  the \<open>playAudio\<close> tasks in the order of their \<open>await\<close>.
\<close>

definition settle :: "nat \<Rightarrow> bool \<Rightarrow> display \<Rightarrow> display" where
  "settle p ok d =
     (if state_of d p = Pending \<and> p < length (calls d) then
        (let d1 = d\<lparr>calls := (calls d)[p := (calls d ! p)\<lparr>call_state := (if ok then Fulfilled else Rejected)\<rparr>],
                     prefetches := filter (\<lambda>t. pf_promise t \<noteq> p) (prefetches d),
                     plays := filter (\<lambda>t. task_promise t \<noteq> p) (plays d)\<rparr>
         in fold (resume_play ok) (filter (\<lambda>t. task_promise t = p) (plays d))
              (fold (resume_prefetch ok) (filter (\<lambda>t. pf_promise t = p) (prefetches d)) d1))
      else d)"

text \<open>
  The events: a render with the sentence of the new result, a click on the button (which
  is disabled while \<open>isAudioLoading\<close>), the settling of a promise, the end of a playback.
\<close>

datatype event = Render jsstring | Click | Settle nat bool | Ended

fun step :: "event \<Rightarrow> display \<Rightarrow> display" where
  "step (Render s) d = render s d"
| "step Click d = (if isAudioLoading d then d else playAudio d)"
| "step (Settle p ok) d = settle p ok d"
| "step Ended d = d\<lparr>isAudioPlaying := False\<rparr>"

definition run :: "event list \<Rightarrow> display \<Rightarrow> display" where
  "run evs d = fold step evs d"

text \<open>
  The events that reject no promise; the sentences that a list of events makes current,
  one for each render that changes the sentence; and the states in which a promise is
  stored and no call has been rejected.
\<close>

fun accepted :: "event \<Rightarrow> bool" where
  "accepted (Settle p ok) = ok"
| "accepted e = True"

fun changes :: "jsstring \<Rightarrow> event list \<Rightarrow> jsstring list" where
  "changes s [] = []"
| "changes s (Render s' # evs) = (if s' = s then changes s evs else s' # changes s' evs)"
| "changes s (e # evs) = changes s evs"

definition unfailed :: "display \<Rightarrow> bool" where
  "unfailed d =
     (audioPromiseRef d \<noteq> None \<and> list_all (\<lambda>c. call_state c \<noteq> Rejected) (calls d))"


section \<open>A platform and inputs to run the code on\<close>

definition quoted :: "string \<Rightarrow> jsstring" where
  "quoted s = [0x22] @ ascii s @ [0x22]"

text \<open>A response of the model with a correction.\<close>

definition corrected_json :: jsstring where
  "corrected_json =
     ascii ''{'' @ quoted ''correction'' @ ascii '':{'' @ quoted ''corrected'' @ ascii '':'' @
     quoted ''I went to the store.'' @ ascii ''}}''"

definition demo_provider :: "request \<Rightarrow> js_error + response" where
  "demo_provider req =
     (case req of
        GenerateContent rq \<Rightarrow>
          (case rq_contents rq of
             AnalysisPrompt s \<Rightarrow>
               Inr \<lparr>response_text = Some (if s = ascii ''I go store.'' then corrected_json
                                           else ascii ''{}''),
                    first_part = None\<rparr>
           | DictionaryPrompt s \<Rightarrow> Inr \<lparr>response_text = Some (ascii ''{}''), first_part = None\<rparr>
           | WritingPrompt m s \<Rightarrow> Inr \<lparr>response_text = Some (ascii ''{}''), first_part = None\<rparr>
           | SpeechParts s \<Rightarrow>
               Inr \<lparr>response_text = None,
                    first_part = Some \<lparr>part_text = None,
                                       inlineData_data = Some (ascii ''AAD/fwCA'')\<rparr>\<rparr>)
      | SendMessage c \<Rightarrow> Inr \<lparr>response_text = Some (ascii ''OK''), first_part = None\<rparr>)"

text \<open>A provider that answers with an empty text, and one that answers with text that is not JSON.\<close>

definition mute_provider :: "request \<Rightarrow> js_error + response" where
  "mute_provider req = Inr \<lparr>response_text = Some [], first_part = None\<rparr>"

definition garbled_provider :: "request \<Rightarrow> js_error + response" where
  "garbled_provider req = Inr \<lparr>response_text = Some (ascii ''<html>''), first_part = None\<rparr>"

text \<open>
  \<open>atob\<close> on three payloads: of six bytes, of three, and of none (\<open>atob\<close> skips white
  space, so a payload of one space decodes to the empty string).
\<close>

definition demo_atob :: "jsstring \<Rightarrow> js_error + jsstring" where
  "demo_atob s =
     (if s = ascii ''AAD/fwCA'' then Inr [0x00, 0x00, 0xFF, 0x7F, 0x00, 0x80]
      else if s = ascii ''AAD/'' then Inr [0x00, 0x00, 0xFF]
      else if s = ascii '' '' then Inr []
      else Inl InvalidCharacterError)"

text \<open>A provider whose audio payload is one space.\<close>

definition blank_audio_provider :: "request \<Rightarrow> js_error + response" where
  "blank_audio_provider req =
     Inr \<lparr>response_text = None,
          first_part = Some \<lparr>part_text = None, inlineData_data = Some (ascii '' '')\<rparr>\<rparr>"

definition demo_parse :: "jsstring \<Rightarrow> js_error + jsval" where
  "demo_parse s =
     (if s = corrected_json
      then Inr (Obj [(ascii ''correction'',
                      Obj [(ascii ''corrected'', Str (ascii ''I went to the store.''))])])
      else if s = ascii ''{}'' then Inr (Obj [])
      else if s = ascii ''null'' then Inr Null
      else Inl SyntaxError)"

text \<open>The buffers the Web Audio interface accepts: the nominal ranges of \<open>createBuffer\<close>.\<close>

definition webaudio_accepts :: "nat \<Rightarrow> nat \<Rightarrow> nat \<Rightarrow> bool" where
  "webaudio_accepts numChannels len sampleRate =
     (1 \<le> numChannels \<and> numChannels \<le> 32 \<and> 1 \<le> len \<and> 8000 \<le> sampleRate
      \<and> sampleRate \<le> 96000)"

definition demo_ctx :: AudioContext where
  "demo_ctx = \<lparr>ctx_sampleRate = 24000, ctx_accepts = webaudio_accepts\<rparr>"

definition demo_env :: platform where
  "demo_env = \<lparr>API_KEY = Some (ascii ''k''), provider = demo_provider, atob = demo_atob,
                JSON_parse = demo_parse, accepts_buffer = webaudio_accepts\<rparr>"

definition no_key_env :: platform where
  "no_key_env = demo_env\<lparr>API_KEY := None\<rparr>"

definition mute_env :: platform where
  "mute_env = demo_env\<lparr>provider := mute_provider\<rparr>"

definition garbled_env :: platform where
  "garbled_env = demo_env\<lparr>provider := garbled_provider\<rparr>"

definition blank_audio_env :: platform where
  "blank_audio_env = demo_env\<lparr>provider := blank_audio_provider\<rparr>"

definition empty_world :: world where
  "empty_world = \<lparr>requests = [], console = [], sharedDecodeContext = None\<rparr>"



definition demo_writing :: WritingResult where
  "demo_writing =
     \<lparr>wr_mode = Fix, generalFeedback = ascii ''ok'',
      segments =
        [\<lparr>seg_type = Unchanged, seg_text = ascii ''I '', seg_original = None,
          seg_reason = None, seg_category = None\<rparr>,
         \<lparr>seg_type = Change, seg_text = ascii ''went'', seg_original = Some (ascii ''go''),
          seg_reason = Some (ascii ''Past tense''), seg_category = Some Grammar\<rparr>,
         \<lparr>seg_type = Unchanged, seg_text = ascii '' home.'', seg_original = None,
          seg_reason = None, seg_category = None\<rparr>]\<rparr>"

definition blank_writing :: WritingResult where
  "blank_writing = \<lparr>wr_mode = Fix, generalFeedback = ascii ''ok'', segments = []\<rparr>"

section \<open>Lemmas\<close>

lemma join_empty_sep: "join [] xs = concat xs"
  by (induction "[]::jsstring" xs rule: join.induct) simp_all

lemma map_of_set_prop: "map_of (set_prop kvs k v) k = Some v"
  by (induction kvs) auto

lemma get_set_prop: "get_prop (Obj (set_prop kvs k v)) k = Inr v"
  by (simp add: map_of_set_prop)


lemma requests_analyzeSentence:
  "requests (snd (analyzeSentence env s l w)) =
     (if ai env = None then requests w else requests w @ [analysis_request s l])"
  by (auto simp: analyzeSentence_def send_def split: option.splits sum.splits)

lemma requests_lookupWord:
  "requests (snd (lookupWord env s l w)) =
     (if ai env = None then requests w else requests w @ [dictionary_request s l])"
  by (auto simp: lookupWord_def send_def split: option.splits sum.splits)

lemma requests_evaluateWriting:
  "requests (snd (evaluateWriting env s m l w)) =
     (if ai env = None then requests w else requests w @ [writing_request s m l])"
  by (auto simp: evaluateWriting_def send_def split: option.splits sum.splits)









lemma length_int16_pairs: "length (int16_pairs bs) = length bs div 2"
  by (induction bs rule: int16_pairs.induct) simp_all

lemma fold_update_index:
  "k \<le> length xs \<Longrightarrow>
   fold (\<lambda>i ys. ys[i := h i (ys ! i)]) [0..<k] xs = map (\<lambda>i. h i (xs ! i)) [0..<k] @ drop k xs"
proof (induction k)
  case 0
  then show ?case by simp
next
  case (Suc k)
  then have k: "k < length xs" by simp
  have "fold (\<lambda>i ys. ys[i := h i (ys ! i)]) [0..<Suc k] xs
        = (map (\<lambda>i. h i (xs ! i)) [0..<k] @ drop k xs)
            [k := h k ((map (\<lambda>i. h i (xs ! i)) [0..<k] @ drop k xs) ! k)]"
    using Suc by simp
  also have "\<dots> = map (\<lambda>i. h i (xs ! i)) [0..<k] @ (drop k xs)[0 := h k (xs ! k)]"
    using k by (simp add: list_update_append nth_append)
  also have "(drop k xs)[0 := h k (xs ! k)] = h k (xs ! k) # drop (Suc k) xs"
    using k by (simp add: Cons_nth_drop_Suc [symmetric])
  finally show ?case by simp
qed

text \<open>The reads of the loops of \<open>decodeAudioData\<close> stay inside \<open>dataInt16\<close>.\<close>

lemma sample_index_in_range:
  assumes "i < n div nc" and "c < nc"
  shows "i * nc + c < (n::nat)"
proof -
  from assms(1) have "Suc i \<le> n div nc" by simp
  then have "Suc i * nc \<le> (n div nc) * nc" by (rule mult_le_mono1)
  also have "\<dots> \<le> n" by simp
  finally have "Suc i * nc \<le> n" .
  moreover have "i * nc + c < Suc i * nc" using assms(2) by simp
  ultimately show ?thesis by simp
qed

lemma fill_channel_map:
  "length cd = n \<Longrightarrow>
   fill_channel d nc c n cd = map (\<lambda>i. real_of_int (sint (d ! (i * nc + c))) / 32768) [0..<n]"
  unfolding fill_channel_def
  using fold_update_index [of n cd "\<lambda>i old. real_of_int (sint (d ! (i * nc + c))) / 32768"]
  by simp

lemma sample_range:
  fixes x :: "16 word"
  shows "- 1 \<le> real_of_int (sint x) / 32768 \<and> real_of_int (sint x) / 32768 \<le> 1"
proof -
  define z where "z = sint x"
  have "- 32768 \<le> z" using sint_ge [of x] by (simp add: z_def)
  moreover have "z < 32768" using sint_lt [of x] by (simp add: z_def)
  ultimately have "- 1 \<le> real_of_int z / 32768 \<and> real_of_int z / 32768 \<le> 1" by simp
  then show ?thesis by (simp only: z_def)
qed

lemma decodeAudioData_channels:
  assumes "decodeAudioData data ctx sr nc = Inr buf"
  shows "\<exists>d. Int16Array data = Inr d \<and> buf_sampleRate buf = sr \<and>
           channelData buf =
             map (\<lambda>c. map (\<lambda>i. real_of_int (sint (d ! (i * nc + c))) / 32768)
                        [0..<length d div nc])
               [0..<nc]"
proof -
  from assms obtain d where d: "Int16Array data = Inr d"
    by (auto simp: decodeAudioData_def split: sum.splits)
  from assms d have acc: "ctx_accepts ctx nc (length d div nc) sr"
    by (auto simp: decodeAudioData_def createBuffer_def Let_def split: if_splits)
  let ?n = "length d div nc"
  let ?zero = "replicate nc (replicate ?n (0::real))"
  have "channelData buf =
          fold (\<lambda>c chans. chans[c := fill_channel d nc c ?n (chans ! c)]) [0..<nc] ?zero"
    using assms d acc by (auto simp: decodeAudioData_def createBuffer_def Let_def)
  also have "\<dots> = map (\<lambda>c. fill_channel d nc c ?n (?zero ! c)) [0..<nc] @ drop nc ?zero"
    using fold_update_index [of nc ?zero "\<lambda>c old. fill_channel d nc c ?n old"] by simp
  also have "\<dots> = map (\<lambda>c. map (\<lambda>i. real_of_int (sint (d ! (i * nc + c))) / 32768) [0..<?n])
                      [0..<nc]"
    by (simp add: fill_channel_map)
  finally have ch: "channelData buf =
      map (\<lambda>c. map (\<lambda>i. real_of_int (sint (d ! (i * nc + c))) / 32768) [0..<?n]) [0..<nc]" .
  have "buf_sampleRate buf = sr"
    using assms d acc by (auto simp: decodeAudioData_def createBuffer_def Let_def)
  with d ch show ?thesis by blast
qed

lemma decodeAudioData_mono:
  assumes "decodeAudioData data ctx sr 1 = Inr buf"
  shows "\<exists>d. Int16Array data = Inr d \<and> buf_sampleRate buf = sr \<and>
           channelData buf = [map (\<lambda>x. real_of_int (sint x) / 32768) d]"
proof -
  from decodeAudioData_channels [OF assms] obtain d where
    d: "Int16Array data = Inr d" and sr: "buf_sampleRate buf = sr" and
    ch: "channelData buf =
           map (\<lambda>c. map (\<lambda>i. real_of_int (sint (d ! (i * 1 + c))) / 32768) [0..<length d div 1])
             [0..<1]"
    by blast
  have "map (\<lambda>i. real_of_int (sint (d ! i)) / 32768) [0..<length d]
        = map (\<lambda>x. real_of_int (sint x) / 32768) (map (\<lambda>i. d ! i) [0..<length d])"
    by (simp add: comp_def)
  then have "channelData buf = [map (\<lambda>x. real_of_int (sint x) / 32768) d]"
    using ch by (simp add: map_nth)
  with d sr show ?thesis by blast
qed

lemma decodeAudioData_range:
  assumes "decodeAudioData data ctx sr nc = Inr buf"
    and "cd \<in> set (channelData buf)" and "x \<in> set cd"
  shows "- 1 \<le> x \<and> x \<le> 1"
proof -
  from decodeAudioData_channels [OF assms(1)] obtain d :: "16 word list" where
    ch: "channelData buf =
           map (\<lambda>c. map (\<lambda>i. real_of_int (sint (d ! (i * nc + c))) / 32768)
                      [0..<length d div nc])
             [0..<nc]"
    by blast
  from assms(2,3) obtain c i where "x = real_of_int (sint (d ! (i * nc + c))) / 32768"
    unfolding ch by auto
  then show ?thesis using sample_range [of "d ! (i * nc + c)"] by simp
qed

lemma generateSpeech_decodes:
  assumes "generateSpeech env t w = (Inr buf, w')"
  shows "\<exists>bytes ctx. decodeAudioData bytes ctx 24000 1 = Inr buf"
  using assms
  by (auto simp: generateSpeech_def Let_def split: option.splits sum.splits prod.splits)

lemma generateSpeech_runs_decoder:
  assumes "ai env \<noteq> None"
    and "provider env (speech_request t) = Inr response"
    and "first_part response = Some p"
    and "nonempty (inlineData_data p) = Some base64Audio"
    and "decode env base64Audio = Inr bytes"
  shows "\<exists>decodeCtx. fst (generateSpeech env t w) = decodeAudioData bytes decodeCtx 24000 1"
  using assms
  by (auto simp: generateSpeech_def send_def Let_def split: prod.splits)

lemma fold_resume_prefetch_keeps:
  "calls (fold (resume_prefetch ok) ts d) = calls d
   \<and> englishSentence (fold (resume_prefetch ok) ts d) = englishSentence d
   \<and> audioPromiseRef (fold (resume_prefetch ok) ts d) = audioPromiseRef d"
  by (induction ts arbitrary: d) (auto simp: resume_prefetch_def)

lemma fold_resume_play_ok_keeps:
  "calls (fold (resume_play True) ts d) = calls d
   \<and> englishSentence (fold (resume_play True) ts d) = englishSentence d
   \<and> audioPromiseRef (fold (resume_play True) ts d) = audioPromiseRef d"
  by (induction ts arbitrary: d) (auto simp: resume_play_def got_buffer_def)

lemma unfailed_state_of: "unfailed d \<Longrightarrow> state_of d p \<noteq> Rejected"
  by (auto simp: unfailed_def state_of_def list_all_length)

lemma unfailed_cong:
  "calls d' = calls d \<Longrightarrow> audioPromiseRef d' = audioPromiseRef d \<Longrightarrow>
   unfailed d' = unfailed d"
  by (simp add: unfailed_def)

lemma unfailed_mount: "unfailed (mount s)"
  by (simp add: unfailed_def mount_def effect_def call_generateSpeech_def)

lemma unfailed_effect: "unfailed d \<Longrightarrow> unfailed (effect d)"
  by (simp add: unfailed_def effect_def call_generateSpeech_def Let_def)

lemma playAudio_unfailed:
  assumes u: "unfailed d"
  shows "calls (playAudio d) = calls d \<and> englishSentence (playAudio d) = englishSentence d
         \<and> audioPromiseRef (playAudio d) = audioPromiseRef d"
proof -
  from u obtain p where p: "audioPromiseRef d = Some p" by (auto simp: unfailed_def)
  have "state_of (d\<lparr>isAudioLoading := True\<rparr>) p \<noteq> Rejected"
    using unfailed_state_of [OF u, of p] by (auto simp: state_of_def split: if_splits)
  then show ?thesis
    using p
    by (auto simp: playAudio_def resume_play_def got_buffer_def Let_def
             split: option.splits promise_state.splits)
qed

lemma settle_ok_keeps:
  "map call_text (calls (settle p True d)) = map call_text (calls d)
   \<and> englishSentence (settle p True d) = englishSentence d
   \<and> audioPromiseRef (settle p True d) = audioPromiseRef d
   \<and> (list_all (\<lambda>c. call_state c \<noteq> Rejected) (calls d) \<longrightarrow>
        list_all (\<lambda>c. call_state c \<noteq> Rejected) (calls (settle p True d)))"
proof (cases "state_of d p = Pending \<and> p < length (calls d)")
  case False
  then show ?thesis by (auto simp: settle_def)
next
  case True
  let ?d1 = "d\<lparr>calls := (calls d)[p := (calls d ! p)\<lparr>call_state := Fulfilled\<rparr>],
                prefetches := filter (\<lambda>t. pf_promise t \<noteq> p) (prefetches d),
                plays := filter (\<lambda>t. task_promise t \<noteq> p) (plays d)\<rparr>"
  have eq: "settle p True d =
      fold (resume_play True) (filter (\<lambda>t. task_promise t = p) (plays d))
        (fold (resume_prefetch True) (filter (\<lambda>t. pf_promise t = p) (prefetches d)) ?d1)"
    using True by (simp add: settle_def Let_def)
  have c: "calls (settle p True d) = calls ?d1"
    and e: "englishSentence (settle p True d) = englishSentence ?d1"
    and a: "audioPromiseRef (settle p True d) = audioPromiseRef ?d1"
    unfolding eq by (simp_all add: fold_resume_play_ok_keeps fold_resume_prefetch_keeps)
  have "(map call_text (calls d))[p := map call_text (calls d) ! p] = map call_text (calls d)"
    by (rule list_update_id)
  then have t: "map call_text (calls ?d1) = map call_text (calls d)"
    using True by (simp add: map_update)
  have r: "list_all (\<lambda>c. call_state c \<noteq> Rejected) (calls d) \<longrightarrow>
           list_all (\<lambda>c. call_state c \<noteq> Rejected) (calls ?d1)"
    using True by (auto simp: list_all_length nth_list_update split: if_splits)
  from c e a t r show ?thesis by simp
qed

lemma step_unfailed:
  assumes "accepted e" and "unfailed d"
  shows "unfailed (step e d)
         \<and> map call_text (calls (step e d)) @ changes (englishSentence (step e d)) evs
             = map call_text (calls d) @ changes (englishSentence d) (e # evs)"
proof (cases e)
  case (Render s')
  show ?thesis
  proof (cases "s' = englishSentence d")
    case True
    with Render assms show ?thesis by (simp add: render_def)
  next
    case False
    have "unfailed (effect (d\<lparr>englishSentence := s'\<rparr>))"
      using assms(2) by (intro unfailed_effect) (simp add: unfailed_def)
    with False Render show ?thesis
      by (simp add: render_def effect_def call_generateSpeech_def Let_def)
  qed
next
  case Click
  show ?thesis
  proof (cases "isAudioLoading d")
    case True
    with Click assms show ?thesis by simp
  next
    case False
    have "unfailed (playAudio d) = unfailed d"
      using playAudio_unfailed [OF assms(2)] by (intro unfailed_cong) simp_all
    with False Click assms playAudio_unfailed [OF assms(2)] show ?thesis by simp
  qed
next
  case (Settle p ok)
  with assms have ok: "ok" by simp
  from settle_ok_keeps [of p d] assms(2) have "unfailed (settle p True d)"
    by (simp add: unfailed_def)
  with Settle ok settle_ok_keeps [of p d] show ?thesis by simp
next
  case Ended
  with assms show ?thesis by (simp add: unfailed_def)
qed

lemma run_unfailed:
  "list_all accepted evs \<Longrightarrow> unfailed d \<Longrightarrow>
   map call_text (calls (run evs d)) = map call_text (calls d) @ changes (englishSentence d) evs"
proof (induction evs arbitrary: d)
  case Nil
  then show ?case by (simp add: run_def)
next
  case (Cons e evs)
  from Cons.prems have e: "accepted e" and es: "list_all accepted evs" by simp_all
  from step_unfailed [OF e Cons.prems(2), of evs]
  have u: "unfailed (step e d)"
    and c: "map call_text (calls (step e d)) @ changes (englishSentence (step e d)) evs
             = map call_text (calls d) @ changes (englishSentence d) (e # evs)"
    by simp_all
  have "run (e # evs) d = run evs (step e d)" by (simp add: run_def)
  then show ?case using Cons.IH [OF es u] c by simp
qed

text \<open>The pre-fetch writes the cache only for the sentence that is current.\<close>

lemma resume_prefetch_guard:
  "audioCacheRef (resume_prefetch ok t d) \<noteq> audioCacheRef d \<Longrightarrow>
   ok \<and> currentSentenceRef d = pf_sentence t"
  by (auto simp: resume_prefetch_def split: if_splits)

text \<open>The effect clears the cache and stores the promise of the call it makes.\<close>

lemma effect_resets:
  "audioCacheRef (effect d) = None \<and> audioPromiseRef (effect d) = Some (length (calls d))
   \<and> currentSentenceRef (effect d) = englishSentence d
   \<and> calls (effect d) = calls d @ [\<lparr>call_text = englishSentence d, call_state = Pending\<rparr>]"
  by (simp add: effect_def call_generateSpeech_def Let_def)


section \<open>The claims\<close>

subsection \<open>C1: the joined text of a writing result\<close>

text \<open>
  Claim C1 says that \<open>copyFullText\<close>, the \<open>fullText\<close> of the syntax view and the writing
  context of the assistant are all exactly the texts of the segments joined in index
  order. For a result whose joined text is empty the context of the assistant is \<open>null\<close>,
  not the empty string.
\<close>

theorem C1_empty_join_counterexample:
  "join [] (map seg_text (segments blank_writing)) = []
   \<and> fst (assistantContext WritingTab None None (Some blank_writing)) = None"
  by (simp add: blank_writing_def assistantContext_def)

text \<open>
  Claim C1, amended: for every writing result, \<open>copyFullText\<close> and the \<open>fullText\<close> of the
  syntax view are the texts of the segments concatenated in index order; the writing
  context of the assistant is that same text when it is not empty, and \<open>null\<close> when it is.
\<close>

theorem C1_joined_text:
  "copyFullText (Some r) clipboard =
     Some (concat (map (\<lambda>i. seg_text (segments r ! i)) [0..<length (segments r)]))
   \<and> fullText r = concat (map (\<lambda>i. seg_text (segments r ! i)) [0..<length (segments r)])
   \<and> fst (assistantContext WritingTab a d (Some r)) =
       (if fullText r = [] then None else Some (fullText r))"
proof -
  have "map (\<lambda>i. seg_text (segments r ! i)) [0..<length (segments r)]
        = map seg_text (map (\<lambda>i. segments r ! i) [0..<length (segments r)])"
    by (simp add: comp_def)
  then have "map (\<lambda>i. seg_text (segments r ! i)) [0..<length (segments r)]
             = map seg_text (segments r)"
    by (simp add: map_nth)
  then show ?thesis
    by (simp add: copyFullText_def fullText_def assistantContext_def join_empty_sep)
qed

theorem C1_joined_text_witness:
  "copyFullText (Some demo_writing) None = Some (ascii ''I went home.'')
   \<and> fullText demo_writing = ascii ''I went home.''
   \<and> fst (assistantContext WritingTab None None (Some demo_writing))
       = Some (ascii ''I went home.'')"
  using C1_joined_text [of demo_writing None None None]
  by (simp add: demo_writing_def ascii_def)

subsection \<open>C2: the decoded samples\<close>

text \<open>
  Claim C2: \<open>decodeAudioData\<close> reads the bytes as 16-bit signed integers and writes, for
  one channel, \<open>channelData[i] = dataInt16[i] / 32768\<close>; every sample of a decoded buffer,
  for any number of channels, lies in \<open>[-1, 1]\<close>; and whenever \<open>generateSpeech\<close> has
  decoded the payload of a response, its result is that of the decoder run with sample
  rate 24000 and one channel.
\<close>

theorem C2_pcm_samples:
  "(decodeAudioData data ctx sampleRate 1 = Inr buffer \<longrightarrow>
      (\<exists>dataInt16. Int16Array data = Inr dataInt16
         \<and> channelData buffer = [map (\<lambda>x. real_of_int (sint x) / 32768) dataInt16]))
   \<and> (decodeAudioData data ctx sampleRate numChannels = Inr buffer \<longrightarrow>
        (\<forall>cd \<in> set (channelData buffer). \<forall>x \<in> set cd. - 1 \<le> x \<and> x \<le> 1))
   \<and> (ai env \<noteq> None \<and> provider env (speech_request text') = Inr response
        \<and> first_part response = Some p \<and> nonempty (inlineData_data p) = Some base64Audio
        \<and> decode env base64Audio = Inr bytes \<longrightarrow>
        (\<exists>decodeCtx. fst (generateSpeech env text' w)
                       = decodeAudioData bytes decodeCtx 24000 1))
   \<and> (generateSpeech env text' w = (Inr audioBuffer, w') \<longrightarrow>
        buf_sampleRate audioBuffer = 24000 \<and> length (channelData audioBuffer) = 1
        \<and> (\<forall>cd \<in> set (channelData audioBuffer). \<forall>x \<in> set cd. - 1 \<le> x \<and> x \<le> 1))"
proof -
  have g: "ai env \<noteq> None \<and> provider env (speech_request text') = Inr response
        \<and> first_part response = Some p \<and> nonempty (inlineData_data p) = Some base64Audio
        \<and> decode env base64Audio = Inr bytes \<longrightarrow>
        (\<exists>decodeCtx. fst (generateSpeech env text' w)
                       = decodeAudioData bytes decodeCtx 24000 1)"
    using generateSpeech_runs_decoder [of env text' response p base64Audio bytes w] by blast
  have a: "decodeAudioData data ctx sampleRate 1 = Inr buffer \<longrightarrow>
      (\<exists>dataInt16. Int16Array data = Inr dataInt16
         \<and> channelData buffer = [map (\<lambda>x. real_of_int (sint x) / 32768) dataInt16])"
    using decodeAudioData_mono [of data ctx sampleRate buffer] by blast
  have b: "decodeAudioData data ctx sampleRate numChannels = Inr buffer \<longrightarrow>
        (\<forall>cd \<in> set (channelData buffer). \<forall>x \<in> set cd. - 1 \<le> x \<and> x \<le> 1)"
    using decodeAudioData_range [of data ctx sampleRate numChannels buffer] by blast
  have c: "generateSpeech env text' w = (Inr audioBuffer, w') \<longrightarrow>
        buf_sampleRate audioBuffer = 24000 \<and> length (channelData audioBuffer) = 1
        \<and> (\<forall>cd \<in> set (channelData audioBuffer). \<forall>x \<in> set cd. - 1 \<le> x \<and> x \<le> 1)"
  proof
    assume g: "generateSpeech env text' w = (Inr audioBuffer, w')"
    from generateSpeech_decodes [OF g] obtain bytes decodeCtx where
      dec: "decodeAudioData bytes decodeCtx 24000 1 = Inr audioBuffer" by blast
    from decodeAudioData_mono [OF dec] have
      "buf_sampleRate audioBuffer = 24000 \<and> length (channelData audioBuffer) = 1" by auto
    moreover have "\<forall>cd \<in> set (channelData audioBuffer). \<forall>x \<in> set cd. - 1 \<le> x \<and> x \<le> 1"
      using decodeAudioData_range [OF dec] by blast
    ultimately show "buf_sampleRate audioBuffer = 24000 \<and> length (channelData audioBuffer) = 1
        \<and> (\<forall>cd \<in> set (channelData audioBuffer). \<forall>x \<in> set cd. - 1 \<le> x \<and> x \<le> 1)"
      by blast
  qed
  from a b g c show ?thesis by blast
qed

lemma demo_decodeAudioData:
  "decodeAudioData [0x00, 0x00, 0xFF, 0x7F, 0x00, 0x80] demo_ctx 24000 1
     = Inr \<lparr>buf_sampleRate = 24000, channelData = [[0, 32767 / 32768, - 1]]\<rparr>"
  by (simp add: decodeAudioData_def Int16Array_def createBuffer_def demo_ctx_def
        webaudio_accepts_def fill_channel_def Let_def)

lemma demo_generateSpeech:
  "fst (generateSpeech demo_env (ascii ''It was fun.'') empty_world)
     = Inr \<lparr>buf_sampleRate = 24000, channelData = [[0, 32767 / 32768, - 1]]\<rparr>"
  using demo_decodeAudioData
  by (simp add: generateSpeech_def ai_def demo_env_def send_def demo_provider_def
        speech_request_def getDecodeContext_def empty_world_def decode_def demo_atob_def
        demo_ctx_def ascii_def Let_def)

theorem C2_pcm_samples_witness:
  "decodeAudioData [0x00, 0x00, 0xFF, 0x7F, 0x00, 0x80] demo_ctx 24000 1
     = Inr \<lparr>buf_sampleRate = 24000, channelData = [[0, 32767 / 32768, - 1]]\<rparr>
   \<and> Int16Array [0x00, 0x00, 0xFF, 0x7F, 0x00, 0x80] = Inr [0x0000, 0x7FFF, 0x8000]
   \<and> list_all (\<lambda>x. - 1 \<le> x \<and> x \<le> 1) [0, 32767 / 32768, - 1 :: real]
   \<and> fst (generateSpeech demo_env (ascii ''It was fun.'') empty_world)
       = Inr \<lparr>buf_sampleRate = 24000, channelData = [[0, 32767 / 32768, - 1]]\<rparr>"
proof -
  have i: "Int16Array [0x00, 0x00, 0xFF, 0x7F, 0x00, 0x80] = Inr [0x0000, 0x7FFF, 0x8000]"
    by (simp add: Int16Array_def)
  have r: "\<forall>cd \<in> set [[0, 32767 / 32768, - 1 :: real]]. \<forall>x \<in> set cd. - 1 \<le> x \<and> x \<le> 1"
    using demo_decodeAudioData
      C2_pcm_samples [of "[0x00, 0x00, 0xFF, 0x7F, 0x00, 0x80]" demo_ctx 24000
        "\<lparr>buf_sampleRate = 24000, channelData = [[0, 32767 / 32768, - 1]]\<rparr>" 1 demo_env]
    by simp
  from r have l: "list_all (\<lambda>x. - 1 \<le> x \<and> x \<le> 1) [0, 32767 / 32768, - 1 :: real]"
    by simp
  from i l demo_decodeAudioData demo_generateSpeech show ?thesis by blast
qed


subsection \<open>C3: an empty or malformed response\<close>

text \<open>
  Claim C3: when the client is there and the response to \<open>analyzeSentence\<close>, \<open>lookupWord\<close>
  or \<open>evaluateWriting\<close> has no text, an empty text, or a text that \<open>JSON.parse\<close> rejects,
  the operation throws an \<open>Error\<close> with its own fixed message.
\<close>

theorem C3_fixed_message:
  assumes key: "ai env \<noteq> None"
    and bad: "nonempty (response_text response) = None
              \<or> (\<exists>jsonText e. nonempty (response_text response) = Some jsonText
                    \<and> JSON_parse env jsonText = Inl e)"
  shows "(provider env (analysis_request sentence level) = Inr response
            \<longrightarrow> fst (analyzeSentence env sentence level w) = Inl (Error analyze_failed))
       \<and> (provider env (dictionary_request word level) = Inr response
            \<longrightarrow> fst (lookupWord env word level w) = Inl (Error lookup_failed))
       \<and> (provider env (writing_request essay mode level) = Inr response
            \<longrightarrow> fst (evaluateWriting env essay mode level w) = Inl (Error writing_failed))"
proof -
  from key obtain client where c: "ai env = Some client" by auto
  have a: "\<exists>e. analysis_of env sentence response = Inl e"
    using bad by (auto simp: analysis_of_def)
  have d: "\<exists>e. dictionary_of env response = Inl e"
    using bad by (auto simp: dictionary_of_def)
  have wr: "\<exists>e. writing_of env mode response = Inl e"
    using bad by (auto simp: writing_of_def)
  show ?thesis
    using a d wr c
    by (auto simp: analyzeSentence_def lookupWord_def evaluateWriting_def send_def)
qed

theorem C3_fixed_message_witness:
  "ai mute_env \<noteq> None
   \<and> nonempty (response_text \<lparr>response_text = Some [], first_part = None\<rparr>) = None
   \<and> fst (analyzeSentence mute_env (ascii ''I go store.'') Mini empty_world)
       = Inl (Error analyze_failed)
   \<and> fst (lookupWord mute_env (ascii ''store'') Mini empty_world) = Inl (Error lookup_failed)
   \<and> fst (evaluateWriting mute_env (ascii ''I go store.'') Fix Mini empty_world)
       = Inl (Error writing_failed)
   \<and> JSON_parse garbled_env (ascii ''<html>'') = Inl SyntaxError
   \<and> fst (analyzeSentence garbled_env (ascii ''I go store.'') Mini empty_world)
       = Inl (Error analyze_failed)"
proof -
  have k: "ai mute_env \<noteq> None"
    by (simp add: ai_def mute_env_def demo_env_def ascii_def)
  have k': "ai garbled_env \<noteq> None"
    by (simp add: ai_def garbled_env_def demo_env_def ascii_def)
  let ?r = "\<lparr>response_text = Some [], first_part = None\<rparr>"
  let ?g = "\<lparr>response_text = Some (ascii ''<html>''), first_part = None\<rparr>"
  have b: "nonempty (response_text ?r) = None" by simp
  have p: "provider mute_env req = Inr ?r" for req
    by (simp add: mute_env_def demo_env_def mute_provider_def)
  have s: "JSON_parse garbled_env (ascii ''<html>'') = Inl SyntaxError"
    by (simp add: garbled_env_def demo_env_def demo_parse_def corrected_json_def quoted_def
          ascii_def)
  have b': "nonempty (response_text ?g) = None
              \<or> (\<exists>jsonText e. nonempty (response_text ?g) = Some jsonText
                    \<and> JSON_parse garbled_env jsonText = Inl e)"
    using s by (simp add: ascii_def)
  have p': "provider garbled_env req = Inr ?g" for req
    by (simp add: garbled_env_def demo_env_def garbled_provider_def)
  from C3_fixed_message [of mute_env ?r "ascii ''I go store.''" Mini empty_world
         "ascii ''store''" "ascii ''I go store.''" Fix] k b p
  have m: "fst (analyzeSentence mute_env (ascii ''I go store.'') Mini empty_world)
             = Inl (Error analyze_failed)
           \<and> fst (lookupWord mute_env (ascii ''store'') Mini empty_world)
               = Inl (Error lookup_failed)
           \<and> fst (evaluateWriting mute_env (ascii ''I go store.'') Fix Mini empty_world)
               = Inl (Error writing_failed)"
    by simp
  from C3_fixed_message [OF k' b', of "ascii ''I go store.''" Mini empty_world] p'
  have g: "fst (analyzeSentence garbled_env (ascii ''I go store.'') Mini empty_world)
             = Inl (Error analyze_failed)"
    by simp
  from k b m s g show ?thesis by blast
qed

subsection \<open>C4: the cache and the current sentence\<close>

text \<open>
  Claim C4: when the sentence changes the cache and the stored promise are cleared before
  the new fetch, a fetched buffer is cached only if its sentence is still the current one,
  and so the cache never holds a buffer of another sentence. The pre-fetch checks this;
  \<open>playAudio\<close> writes the cache without the check. The component shows
  \<open>I go store.\<close>; the button is clicked while the pre-fetch is pending; the result
  changes to \<open>It was fun.\<close>; the first call resolves: the cache then holds the buffer of
  call 0, fetched for \<open>I go store.\<close>, while the current sentence is \<open>It was fun.\<close>.
\<close>

theorem C4_stale_buffer_cached:
  "audioCacheRef (run [Click, Render (ascii ''It was fun.''), Settle 0 True]
                    (mount (ascii ''I go store.''))) = Some 0
   \<and> map call_text (calls (run [Click, Render (ascii ''It was fun.''), Settle 0 True]
                              (mount (ascii ''I go store.''))))
       = [ascii ''I go store.'', ascii ''It was fun.'']
   \<and> currentSentenceRef (run [Click, Render (ascii ''It was fun.''), Settle 0 True]
                            (mount (ascii ''I go store.''))) = ascii ''It was fun.''
   \<and> englishSentence (run [Click, Render (ascii ''It was fun.''), Settle 0 True]
                         (mount (ascii ''I go store.''))) = ascii ''It was fun.''"
  by (simp add: run_def mount_def effect_def call_generateSpeech_def playAudio_def
        state_of_def render_def settle_def resume_prefetch_def resume_play_def got_buffer_def
        ascii_def Let_def)

subsection \<open>C5: the thinking budget of a request\<close>

text \<open>
  Claim C5 says that each tier gives a request whose \<open>thinkingConfig\<close> carries the budget
  of the tier: 0 for \<open>mini\<close>, 500 for \<open>quick\<close>, 2000 for \<open>deep\<close>. The request of the tier
  \<open>mini\<close> has no \<open>thinkingConfig\<close>: the budget is sent only when it is positive.
\<close>

theorem C5_mini_counterexample:
  "thinkingBudget (getModelConfig Mini) = 0
   \<and> requests (snd (analyzeSentence demo_env (ascii ''I go store.'') Mini empty_world))
       = [GenerateContent
            \<lparr>rq_model = ascii ''gemini-2.5-flash'',
             rq_contents = AnalysisPrompt (ascii ''I go store.''),
             thinkingConfig = None,
             responseMimeType = Some (ascii ''application/json''),
             responseSchema = Some AnalysisSchema,
             responseModalities = [],
             voiceName = None\<rparr>]"
  by (simp add: requests_analyzeSentence analysis_request_def empty_world_def ai_def
        demo_env_def ascii_def)

text \<open>
  Claim C5, amended: \<open>getModelConfig\<close> gives the budget 0 for \<open>mini\<close>, 500 for \<open>quick\<close> and
  2000 for \<open>deep\<close>; the request that \<open>analyzeSentence\<close>, \<open>lookupWord\<close> or
  \<open>evaluateWriting\<close> sends carries \<open>thinkingConfig\<close> with the budget 500 for \<open>quick\<close> and
  2000 for \<open>deep\<close>, and carries no \<open>thinkingConfig\<close> for \<open>mini\<close>.
\<close>

theorem C5_thinking_budget:
  assumes key: "ai env \<noteq> None"
  shows "thinkingBudget (getModelConfig Mini) = 0
       \<and> thinkingBudget (getModelConfig Quick) = 500
       \<and> thinkingBudget (getModelConfig Deep) = 2000
       \<and> (\<exists>rq. requests (snd (analyzeSentence env sentence level w))
                  = requests w @ [GenerateContent rq]
                \<and> thinkingConfig rq
                  = (case level of Mini \<Rightarrow> None | Quick \<Rightarrow> Some 500 | Deep \<Rightarrow> Some 2000))
       \<and> (\<exists>rq. requests (snd (lookupWord env word level w))
                  = requests w @ [GenerateContent rq]
                \<and> thinkingConfig rq
                  = (case level of Mini \<Rightarrow> None | Quick \<Rightarrow> Some 500 | Deep \<Rightarrow> Some 2000))
       \<and> (\<exists>rq. requests (snd (evaluateWriting env essay mode level w))
                  = requests w @ [GenerateContent rq]
                \<and> thinkingConfig rq
                  = (case level of Mini \<Rightarrow> None | Quick \<Rightarrow> Some 500 | Deep \<Rightarrow> Some 2000))"
  using key
  by (cases level)
     (simp_all add: requests_analyzeSentence requests_lookupWord requests_evaluateWriting
        analysis_request_def dictionary_request_def writing_request_def)

theorem C5_thinking_budget_witness:
  "ai demo_env \<noteq> None
   \<and> map (\<lambda>req. case req of GenerateContent rq \<Rightarrow> thinkingConfig rq | SendMessage c \<Rightarrow> None)
       (requests (snd (lookupWord demo_env (ascii ''store'') Deep empty_world)))
     = [Some 2000]"
proof -
  have k: "ai demo_env \<noteq> None"
    by (simp add: ai_def demo_env_def ascii_def)
  from C5_thinking_budget [OF k, of "ascii ''I go store.''" Deep empty_world
         "ascii ''store''" "ascii ''I go store.''" Fix]
  obtain rq where "requests (snd (lookupWord demo_env (ascii ''store'') Deep empty_world))
                     = requests empty_world @ [GenerateContent rq]"
    and "thinkingConfig rq = Some 2000"
    by auto
  with k show ?thesis by (simp add: empty_world_def)
qed

subsection \<open>C6: the missing credential\<close>

text \<open>
  Claim C6: when the client is \<open>null\<close>, each of \<open>generateSpeech\<close>, \<open>analyzeSentence\<close>,
  \<open>lookupWord\<close>, \<open>evaluateWriting\<close> and \<open>getChatResponse\<close> throws an error at once: no
  request is sent and nothing else changes.
\<close>

theorem C6_missing_key:
  assumes "ai env = None"
  shows "generateSpeech env text' w = (Inl (Error api_key_missing), w)
     \<and> analyzeSentence env sentence level w = (Inl (Error api_key_missing_long), w)
     \<and> lookupWord env word level w = (Inl (Error api_key_missing), w)
     \<and> evaluateWriting env essay mode level w = (Inl (Error api_key_missing), w)
     \<and> getChatResponse env history contextContent userMessage ctype w
         = (Inl (Error api_key_missing), w)"
  using assms
  by (simp add: generateSpeech_def analyzeSentence_def lookupWord_def evaluateWriting_def
        getChatResponse_def)

theorem C6_missing_key_witness:
  "ai no_key_env = None
   \<and> generateSpeech no_key_env (ascii ''Hi'') empty_world
       = (Inl (Error api_key_missing), empty_world)
   \<and> analyzeSentence no_key_env (ascii ''Hi'') Quick empty_world
       = (Inl (Error api_key_missing_long), empty_world)
   \<and> lookupWord no_key_env (ascii ''Hi'') Quick empty_world
       = (Inl (Error api_key_missing), empty_world)
   \<and> evaluateWriting no_key_env (ascii ''Hi'') Fix Quick empty_world
       = (Inl (Error api_key_missing), empty_world)
   \<and> getChatResponse no_key_env [] None (ascii ''Hi'') Sentence empty_world
       = (Inl (Error api_key_missing), empty_world)
   \<and> requests empty_world = []"
proof -
  have k: "ai no_key_env = None"
    by (simp add: ai_def no_key_env_def)
  show ?thesis
    using k C6_missing_key [OF k, of "ascii ''Hi''" empty_world "ascii ''Hi''" Quick
                              "ascii ''Hi''" "ascii ''Hi''" Fix "[]" None "ascii ''Hi''" Sentence]
    by (simp add: empty_world_def)
qed


subsection \<open>C7: retries\<close>




subsection \<open>C8: the shared fetch\<close>

text \<open>
  Claim C8 says that \<open>playAudio\<close> waits for a stored pending promise instead of calling
  \<open>generateSpeech\<close>, so that at most one fetch is in flight for the current sentence unless
  the stored fetch has failed. The sentence goes from \<open>A\<close> to \<open>B\<close> and back to \<open>A\<close> while
  the calls are pending: two calls for \<open>A\<close>, the current sentence, are in flight, and no
  call has failed.
\<close>

theorem C8_two_in_flight_counterexample:
  "map call_text (calls (run [Render (ascii ''B''), Render (ascii ''A'')] (mount (ascii ''A''))))
     = [ascii ''A'', ascii ''B'', ascii ''A'']
   \<and> map call_state (calls (run [Render (ascii ''B''), Render (ascii ''A'')]
                               (mount (ascii ''A''))))
     = [Pending, Pending, Pending]
   \<and> currentSentenceRef (run [Render (ascii ''B''), Render (ascii ''A'')] (mount (ascii ''A'')))
     = ascii ''A''
   \<and> audioPromiseRef (run [Render (ascii ''B''), Render (ascii ''A'')] (mount (ascii ''A'')))
     = Some 2"
  by (simp add: run_def mount_def effect_def call_generateSpeech_def render_def
        ascii_def Let_def)

text \<open>
  Claim C8, amended: whenever \<open>playAudio\<close> runs while nothing plays, the cache is empty and
  a pending promise is stored, it waits for that promise and makes no call of
  \<open>generateSpeech\<close>; so, as long as no call has been rejected, the calls of
  \<open>generateSpeech\<close> of a component are exactly the pre-fetch of its mounting and one
  pre-fetch for each change of its sentence, whatever the clicks: one fetch for each time
  a sentence becomes current, also when an earlier fetch for the same text is still in
  flight.
\<close>

theorem C8_shared_fetch:
  "(\<not> isAudioPlaying d \<and> audioCacheRef d = None \<and> audioPromiseRef d = Some p
      \<and> state_of d p = Pending
      \<longrightarrow> calls (playAudio d) = calls d
          \<and> plays (playAudio d) =
              plays d @ [\<lparr>task_sentence = englishSentence d, task_promise = p,
                          task_awaits = Stored\<rparr>])
   \<and> (list_all accepted evs \<longrightarrow>
        map call_text (calls (run evs (mount s))) = s # changes s evs)"
proof -
  have m: "map call_text (calls (mount s)) = [s] \<and> englishSentence (mount s) = s"
    by (simp add: mount_def effect_def call_generateSpeech_def Let_def)
  have a: "list_all accepted evs \<longrightarrow>
        map call_text (calls (run evs (mount s))) = s # changes s evs"
    using run_unfailed [of evs "mount s"] unfailed_mount [of s] m by simp
  have b: "\<not> isAudioPlaying d \<and> audioCacheRef d = None \<and> audioPromiseRef d = Some p
      \<and> state_of d p = Pending
      \<longrightarrow> calls (playAudio d) = calls d
          \<and> plays (playAudio d) =
              plays d @ [\<lparr>task_sentence = englishSentence d, task_promise = p,
                          task_awaits = Stored\<rparr>]"
    by (simp add: playAudio_def state_of_def Let_def)
  from a b show ?thesis by blast
qed

theorem C8_shared_fetch_witness:
  "\<not> isAudioPlaying (mount (ascii ''It was fun.''))
   \<and> audioCacheRef (mount (ascii ''It was fun.'')) = None
   \<and> audioPromiseRef (mount (ascii ''It was fun.'')) = Some 0
   \<and> state_of (mount (ascii ''It was fun.'')) 0 = Pending
   \<and> length (calls (playAudio (mount (ascii ''It was fun.'')))) = 1
   \<and> plays (playAudio (mount (ascii ''It was fun.'')))
       = [\<lparr>task_sentence = ascii ''It was fun.'', task_promise = 0, task_awaits = Stored\<rparr>]
   \<and> list_all accepted
       [Click, Render (ascii ''It was fun.''), Settle 0 True, Ended, Click]
   \<and> map call_text
       (calls (run [Click, Render (ascii ''It was fun.''), Settle 0 True, Ended, Click]
                 (mount (ascii ''It was fun.''))))
       = [ascii ''It was fun.'']
   \<and> list_all accepted
       [Click, Render (ascii ''B''), Click, Settle 1 True, Render (ascii ''A''), Settle 0 True,
        Click]
   \<and> map call_text
       (calls (run [Click, Render (ascii ''B''), Click, Settle 1 True, Render (ascii ''A''),
                    Settle 0 True, Click]
                 (mount (ascii ''A''))))
       = [ascii ''A'', ascii ''B'', ascii ''A'']"
proof -
  let ?s = "ascii ''It was fun.''"
  let ?evs = "[Click, Render (ascii ''B''), Click, Settle 1 True, Render (ascii ''A''),
               Settle 0 True, Click]"
  have m: "\<not> isAudioPlaying (mount ?s) \<and> audioCacheRef (mount ?s) = None
           \<and> audioPromiseRef (mount ?s) = Some 0 \<and> state_of (mount ?s) 0 = Pending
           \<and> length (calls (mount ?s)) = 1 \<and> plays (mount ?s) = []
           \<and> englishSentence (mount ?s) = ?s"
    by (simp add: mount_def effect_def call_generateSpeech_def state_of_def Let_def)
  have b: "list_all accepted [Click, Render ?s, Settle 0 True, Ended, Click]"
    by simp
  have b': "list_all accepted ?evs"
    by simp
  have c: "changes (ascii ''A'') ?evs = [ascii ''B'', ascii ''A'']"
    by (simp add: ascii_def)
  from C8_shared_fetch [of "mount ?s" 0 "[Click, Render ?s, Settle 0 True, Ended, Click]" ?s] m b
  have one: "length (calls (playAudio (mount ?s))) = 1
     \<and> plays (playAudio (mount ?s))
         = [\<lparr>task_sentence = ?s, task_promise = 0, task_awaits = Stored\<rparr>]
     \<and> map call_text (calls (run [Click, Render ?s, Settle 0 True, Ended, Click] (mount ?s)))
         = [?s]"
    by simp
  from C8_shared_fetch [of "mount ?s" 0 ?evs "ascii ''A''"] b' c
  have two: "map call_text (calls (run ?evs (mount (ascii ''A''))))
               = [ascii ''A'', ascii ''B'', ascii ''A'']"
    by simp
  from m b b' one two show ?thesis by simp
qed

subsection \<open>C9: the sentence of an analysis\<close>

text \<open>
  Claim C9: when \<open>analyzeSentence\<close> succeeds, it has parsed the text of a response, and
  the \<open>englishSentence\<close> of its result is the \<open>corrected\<close> of the correction when the
  parsed response has a correction object, and the sentence of the caller when it has no
  correction (when its \<open>correction\<close> is \<open>undefined\<close>, or any other falsy value).
\<close>

theorem C9_english_sentence:
  assumes ok: "fst (analyzeSentence env sentence level w) = Inr result"
  shows "\<exists>response jsonText parsedData.
           provider env (analysis_request sentence level) = Inr response
         \<and> response_text response = Some jsonText
         \<and> JSON_parse env jsonText = Inr parsedData
         \<and> (\<forall>kvs. get_prop parsedData (ascii ''correction'') = Inr (Obj kvs)
                \<longrightarrow> get_prop result (ascii ''englishSentence'')
                    = get_prop (Obj kvs) (ascii ''corrected''))
         \<and> (\<forall>c. get_prop parsedData (ascii ''correction'') = Inr c \<and> \<not> truthy c
                \<longrightarrow> get_prop result (ascii ''englishSentence'') = Inr (Str sentence))"
proof -
  have key: "ai env \<noteq> None"
    using ok by (auto simp: analyzeSentence_def split: option.splits)
  then obtain client where c: "ai env = Some client" by auto
  from ok c obtain response where
    resp: "provider env (analysis_request sentence level) = Inr response" and
    r: "analysis_of env sentence response = Inr result"
    by (auto simp: analyzeSentence_def send_def split: sum.splits)
  from r obtain jsonText where
    ne: "nonempty (response_text response) = Some jsonText"
    by (auto simp: analysis_of_def split: option.splits)
  then have rtext: "response_text response = Some jsonText"
    by (cases "response_text response") (auto split: if_splits)
  from r ne obtain parsedData where
    parsed: "JSON_parse env jsonText = Inr parsedData"
    by (auto simp: analysis_of_def split: sum.splits)
  have a: "\<forall>kvs. get_prop parsedData (ascii ''correction'') = Inr (Obj kvs)
                \<longrightarrow> get_prop result (ascii ''englishSentence'')
                    = get_prop (Obj kvs) (ascii ''corrected'')"
    using r ne parsed
    by (auto simp: analysis_of_def get_set_prop simp del: get_prop.simps
             split: sum.splits if_splits)
  have b: "\<forall>c. get_prop parsedData (ascii ''correction'') = Inr c \<and> \<not> truthy c
                \<longrightarrow> get_prop result (ascii ''englishSentence'') = Inr (Str sentence)"
    using r ne parsed
    by (auto simp: analysis_of_def get_set_prop simp del: get_prop.simps
             split: sum.splits if_splits)
  from resp rtext parsed a b show ?thesis by blast
qed

lemma demo_corrected:
  "fst (analyzeSentence demo_env (ascii ''I go store.'') Mini empty_world)
     = Inr (Obj [(ascii ''correction'',
                  Obj [(ascii ''corrected'', Str (ascii ''I went to the store.''))]),
                 (ascii ''englishSentence'', Str (ascii ''I went to the store.''))])"
  by (simp add: analyzeSentence_def ai_def demo_env_def send_def demo_provider_def
        analysis_request_def analysis_of_def demo_parse_def corrected_json_def quoted_def
        ascii_def Let_def)

lemma demo_uncorrected:
  "fst (analyzeSentence demo_env (ascii ''It was fun.'') Mini empty_world)
     = Inr (Obj [(ascii ''englishSentence'', Str (ascii ''It was fun.''))])"
  by (simp add: analyzeSentence_def ai_def demo_env_def send_def demo_provider_def
        analysis_request_def analysis_of_def demo_parse_def corrected_json_def quoted_def
        ascii_def Let_def)

theorem C9_english_sentence_witness:
  "fst (analyzeSentence demo_env (ascii ''I go store.'') Mini empty_world)
     = Inr (Obj [(ascii ''correction'',
                  Obj [(ascii ''corrected'', Str (ascii ''I went to the store.''))]),
                 (ascii ''englishSentence'', Str (ascii ''I went to the store.''))])
   \<and> JSON_parse demo_env corrected_json
       = Inr (Obj [(ascii ''correction'',
                    Obj [(ascii ''corrected'', Str (ascii ''I went to the store.''))])])
   \<and> get_prop (Obj [(ascii ''correction'',
                     Obj [(ascii ''corrected'', Str (ascii ''I went to the store.''))]),
                    (ascii ''englishSentence'', Str (ascii ''I went to the store.''))])
       (ascii ''englishSentence'') = Inr (Str (ascii ''I went to the store.''))
   \<and> fst (analyzeSentence demo_env (ascii ''It was fun.'') Mini empty_world)
       = Inr (Obj [(ascii ''englishSentence'', Str (ascii ''It was fun.''))])
   \<and> JSON_parse demo_env (ascii ''{}'') = Inr (Obj [])
   \<and> get_prop (Obj [(ascii ''englishSentence'', Str (ascii ''It was fun.''))])
       (ascii ''englishSentence'') = Inr (Str (ascii ''It was fun.''))"
proof -
  let ?c = "Obj [(ascii ''corrected'', Str (ascii ''I went to the store.''))]"
  let ?r1 = "\<lparr>response_text = Some corrected_json, first_part = None\<rparr>"
  let ?r2 = "\<lparr>response_text = Some (ascii ''{}''), first_part = None\<rparr>"
  have p1: "provider demo_env (analysis_request (ascii ''I go store.'') Mini) = Inr ?r1"
    by (simp add: demo_env_def demo_provider_def analysis_request_def)
  have j1: "JSON_parse demo_env corrected_json = Inr (Obj [(ascii ''correction'', ?c)])"
    by (simp add: demo_env_def demo_parse_def)
  have p2: "provider demo_env (analysis_request (ascii ''It was fun.'') Mini) = Inr ?r2"
    by (simp add: demo_env_def demo_provider_def analysis_request_def ascii_def)
  have j2: "JSON_parse demo_env (ascii ''{}'') = Inr (Obj [])"
    by (simp add: demo_env_def demo_parse_def corrected_json_def quoted_def ascii_def)
  from C9_english_sentence [OF demo_corrected] p1 j1
  have e1: "get_prop (Obj [(ascii ''correction'', ?c),
                           (ascii ''englishSentence'', Str (ascii ''I went to the store.''))])
              (ascii ''englishSentence'') = get_prop ?c (ascii ''corrected'')"
    by auto
  from C9_english_sentence [OF demo_uncorrected] p2 j2
  have e2: "get_prop (Obj [(ascii ''englishSentence'', Str (ascii ''It was fun.''))])
              (ascii ''englishSentence'') = Inr (Str (ascii ''It was fun.''))"
    by auto
  from demo_corrected j1 e1 demo_uncorrected j2 e2 show ?thesis by simp
qed

subsection \<open>C10: payloads of odd length\<close>

text \<open>
  Claim C10 says that \<open>decodeAudioData\<close> throws for every payload of odd byte length and
  succeeds for every payload of even byte length, with half as many frames as bytes. The
  empty payload has an even length, and \<open>createBuffer\<close> of the Web Audio interface
  rejects a buffer of no frames: \<open>decodeAudioData\<close> throws a NotSupportedError, and so does
  \<open>generateSpeech\<close> when the payload of the response is one space, which is not falsy and
  which \<open>atob\<close> decodes to the empty string.
\<close>

theorem C10_empty_payload_counterexample:
  "even (length ([] :: 8 word list))
   \<and> decodeAudioData [] demo_ctx 24000 1 = Inl NotSupportedError
   \<and> decode blank_audio_env (ascii '' '') = Inr []
   \<and> fst (generateSpeech blank_audio_env (ascii ''It was fun.'') empty_world)
       = Inl NotSupportedError"
  by (simp add: decodeAudioData_def Int16Array_def createBuffer_def demo_ctx_def
        webaudio_accepts_def generateSpeech_def ai_def blank_audio_env_def demo_env_def
        send_def blank_audio_provider_def getDecodeContext_def empty_world_def decode_def
        demo_atob_def ascii_def Let_def)

text \<open>
  Claim C10, amended: \<open>decode\<close> gives one byte for each character of the string that
  \<open>atob\<close> returns; for every payload of odd byte length \<open>decodeAudioData\<close> throws at the
  construction of the \<open>Int16Array\<close>; for every payload of even byte length the
  construction succeeds with half as many elements as bytes, and \<open>decodeAudioData\<close> with
  one channel succeeds, with half as many frames as bytes, when \<open>createBuffer\<close> of the
  context accepts that many frames, and throws a NotSupportedError when it does not. With
  the ranges of the Web Audio interface at 24 kHz it succeeds for every even length but
  zero, and throws for the empty payload.
\<close>

theorem C10_even_length:
  "(atob env base64 = Inr binaryString \<longrightarrow>
      (\<exists>bytes. decode env base64 = Inr bytes \<and> length bytes = length binaryString))
   \<and> (odd (length data) \<longrightarrow> decodeAudioData data ctx sampleRate numChannels = Inl RangeError)
   \<and> (even (length data) \<longrightarrow>
        (\<exists>dataInt16. Int16Array data = Inr dataInt16
           \<and> length dataInt16 = length data div 2))
   \<and> (even (length data) \<and> ctx_accepts ctx 1 (length data div 2) sampleRate \<longrightarrow>
        (\<exists>buffer cd. decodeAudioData data ctx sampleRate 1 = Inr buffer
           \<and> channelData buffer = [cd] \<and> length cd = length data div 2))
   \<and> (even (length data) \<and> \<not> ctx_accepts ctx 1 (length data div 2) sampleRate \<longrightarrow>
        decodeAudioData data ctx sampleRate 1 = Inl NotSupportedError)
   \<and> (ctx_accepts ctx = webaudio_accepts \<and> even (length data) \<and> data \<noteq> [] \<longrightarrow>
        (\<exists>buffer cd. decodeAudioData data ctx 24000 1 = Inr buffer
           \<and> channelData buffer = [cd] \<and> length cd = length data div 2))
   \<and> (ctx_accepts ctx = webaudio_accepts \<longrightarrow>
        decodeAudioData [] ctx 24000 1 = Inl NotSupportedError)"
proof -
  have a: "atob env base64 = Inr binaryString \<longrightarrow>
      (\<exists>bytes. decode env base64 = Inr bytes \<and> length bytes = length binaryString)"
    by (simp add: decode_def)
  have b: "odd (length data) \<longrightarrow> decodeAudioData data ctx sampleRate numChannels = Inl RangeError"
    by (simp add: decodeAudioData_def Int16Array_def)
  have i: "even (length data) \<longrightarrow>
        (\<exists>dataInt16. Int16Array data = Inr dataInt16
           \<and> length dataInt16 = length data div 2)"
    by (simp add: Int16Array_def length_int16_pairs)
  have c: "even (length data') \<and> ctx_accepts ctx 1 (length data' div 2) sr \<longrightarrow>
        (\<exists>buffer cd. decodeAudioData data' ctx sr 1 = Inr buffer
           \<and> channelData buffer = [cd] \<and> length cd = length data' div 2)"
    for data' sr
  proof
    assume h: "even (length data') \<and> ctx_accepts ctx 1 (length data' div 2) sr"
    then obtain buffer where
      d: "decodeAudioData data' ctx sr 1 = Inr buffer"
      by (simp add: decodeAudioData_def Int16Array_def createBuffer_def length_int16_pairs
            Let_def)
    from decodeAudioData_mono [OF d] h
    have "channelData buffer = [map (\<lambda>x. real_of_int (sint x) / 32768) (int16_pairs data')]"
      by (auto simp: Int16Array_def)
    then have "channelData buffer = [map (\<lambda>x. real_of_int (sint x) / 32768) (int16_pairs data')]
               \<and> length (map (\<lambda>x. real_of_int (sint x) / 32768) (int16_pairs data'))
                   = length data' div 2"
      by (simp add: length_int16_pairs)
    with d show "\<exists>buffer cd. decodeAudioData data' ctx sr 1 = Inr buffer
           \<and> channelData buffer = [cd] \<and> length cd = length data' div 2"
      by blast
  qed
  have n: "even (length data) \<and> \<not> ctx_accepts ctx 1 (length data div 2) sampleRate \<longrightarrow>
        decodeAudioData data ctx sampleRate 1 = Inl NotSupportedError"
    by (simp add: decodeAudioData_def Int16Array_def createBuffer_def length_int16_pairs
          Let_def)
  have w: "ctx_accepts ctx = webaudio_accepts \<and> even (length data) \<and> data \<noteq> [] \<longrightarrow>
        (\<exists>buffer cd. decodeAudioData data ctx 24000 1 = Inr buffer
           \<and> channelData buffer = [cd] \<and> length cd = length data div 2)"
  proof
    assume h: "ctx_accepts ctx = webaudio_accepts \<and> even (length data) \<and> data \<noteq> []"
    then have "0 < length data" by simp
    moreover from h have "length data \<noteq> 1" by auto
    ultimately have "2 \<le> length data" by arith
    then have "1 \<le> length data div 2" by simp
    with h have "even (length data) \<and> ctx_accepts ctx 1 (length data div 2) 24000"
      by (simp add: webaudio_accepts_def)
    with c [of data 24000]
    show "\<exists>buffer cd. decodeAudioData data ctx 24000 1 = Inr buffer
           \<and> channelData buffer = [cd] \<and> length cd = length data div 2"
      by blast
  qed
  have e: "ctx_accepts ctx = webaudio_accepts \<longrightarrow>
        decodeAudioData [] ctx 24000 1 = Inl NotSupportedError"
    by (simp add: decodeAudioData_def Int16Array_def createBuffer_def webaudio_accepts_def)
  from a b i c [of data sampleRate] n w e show ?thesis by blast
qed

theorem C10_even_length_witness:
  "atob demo_env (ascii ''AAD/'') = Inr [0x00, 0x00, 0xFF]
   \<and> decode demo_env (ascii ''AAD/'') = Inr [0x00, 0x00, 0xFF]
   \<and> odd (length [0x00, 0x00, 0xFF :: 8 word])
   \<and> decodeAudioData [0x00, 0x00, 0xFF] demo_ctx 24000 1 = Inl RangeError
   \<and> even (length [0x00, 0x00, 0xFF, 0x7F, 0x00, 0x80 :: 8 word])
   \<and> ctx_accepts demo_ctx = webaudio_accepts
   \<and> ctx_accepts demo_ctx 1 (length [0x00, 0x00, 0xFF, 0x7F, 0x00, 0x80 :: 8 word] div 2) 24000
   \<and> decodeAudioData [0x00, 0x00, 0xFF, 0x7F, 0x00, 0x80] demo_ctx 24000 1
       = Inr \<lparr>buf_sampleRate = 24000, channelData = [[0, 32767 / 32768, - 1]]\<rparr>
   \<and> \<not> ctx_accepts demo_ctx 1 (length ([] :: 8 word list) div 2) 24000
   \<and> decodeAudioData [] demo_ctx 24000 1 = Inl NotSupportedError"
proof -
  have at: "atob demo_env (ascii ''AAD/'') = Inr [0x00, 0x00, 0xFF]"
    by (simp add: demo_env_def demo_atob_def ascii_def)
  have de: "decode demo_env (ascii ''AAD/'') = Inr [0x00, 0x00, 0xFF]"
    using at by (simp add: decode_def)
  have od: "odd (length [0x00, 0x00, 0xFF :: 8 word])" by simp
  have ev: "even (length [0x00, 0x00, 0xFF, 0x7F, 0x00, 0x80 :: 8 word])" by simp
  have wa: "ctx_accepts demo_ctx = webaudio_accepts"
    by (simp add: demo_ctx_def)
  have ac: "ctx_accepts demo_ctx 1 (length [0x00, 0x00, 0xFF, 0x7F, 0x00, 0x80 :: 8 word] div 2)
              24000"
    by (simp add: demo_ctx_def webaudio_accepts_def)
  have na: "\<not> ctx_accepts demo_ctx 1 (length ([] :: 8 word list) div 2) 24000"
    by (simp add: demo_ctx_def webaudio_accepts_def)
  from C10_even_length [of demo_env "ascii ''AAD/''" "[0x00, 0x00, 0xFF]" "[0x00, 0x00, 0xFF]"
         demo_ctx 24000 1] od
  have r: "decodeAudioData [0x00, 0x00, 0xFF] demo_ctx 24000 1 = Inl RangeError"
    by blast
  from C10_even_length [of demo_env "ascii ''AAD/''" "[0x00, 0x00, 0xFF]" "[]"
         demo_ctx 24000 1] wa
  have z: "decodeAudioData [] demo_ctx 24000 1 = Inl NotSupportedError"
    by blast
  from at de od r ev wa ac na z demo_decodeAudioData show ?thesis by blast
qed

end
